theory Spec2Isabelle
  imports
    Complex_Main
    "HOL-Library.Word"
    "HOL-Library.Signed_Division"
    "HOL-Library.Char_ord"
    "HOL-Library.List_Lexorder"
    "HOL-Library.Product_Lexorder"
begin

section \<open>Go integers\<close>

text \<open>
  Go's \<open>int\<close> is 64 bits wide on the platforms the service is built for. Addition,
  subtraction and multiplication wrap around, comparison is signed, and \<open>/\<close> truncates
  towards zero and panics on a zero divisor.
\<close>

type_synonym go_int = "64 word"

datatype panic = DivideByZero

definition go_div :: "go_int \<Rightarrow> go_int \<Rightarrow> panic + go_int" where
  "go_div a b =
     (if b = 0 then Inl DivideByZero else Inr (word_of_int (sint a sdiv sint b)))"

section \<open>strconv.Atoi\<close>

text \<open>
  The standard library's \<open>strconv.Atoi\<close>, as \<open>ParseInt(s, 10, 0)\<close>: an optional sign,
  then one or more decimal digits (bytes \<open>'0'\<close> to \<open>'9'\<close>); \<open>ErrSyntax\<close> on anything
  else, \<open>ErrRange\<close> when the value leaves the 64-bit range. \<open>ParseUint\<close> reads the digits
  left to right into an unsigned 64-bit number and stops at the first byte it rejects or
  at the first overflow; \<open>Atoi\<close>'s fast path for short strings gives the same results.
\<close>

datatype NumError = ErrSyntax | ErrRange

definition is_digit :: "char \<Rightarrow> bool" where
  "is_digit ch = (48 \<le> (of_char ch :: nat) \<and> (of_char ch :: nat) \<le> 57)"

definition digit_val :: "char \<Rightarrow> int" where
  "digit_val ch = int (of_char ch) - 48"

fun parse_uint :: "int \<Rightarrow> string \<Rightarrow> NumError + int" where
  "parse_uint n [] = Inr n"
| "parse_uint n (ch # s) =
     (if \<not> is_digit ch then Inl ErrSyntax
      else if n \<ge> (2 ^ 64 - 1) div 10 + 1 then Inl ErrRange
      else if n * 10 + digit_val ch > 2 ^ 64 - 1 then Inl ErrRange
      else parse_uint (n * 10 + digit_val ch) s)"

definition ParseUint :: "string \<Rightarrow> NumError + int" where
  "ParseUint s = (if s = [] then Inl ErrSyntax else parse_uint 0 s)"

definition Atoi :: "string \<Rightarrow> NumError + go_int" where
  "Atoi s =
     (case s of
        [] \<Rightarrow> Inl ErrSyntax
      | ch # rest \<Rightarrow>
          let neg = (ch = CHR ''-'');
              digits = (if ch = CHR ''+'' \<or> ch = CHR ''-'' then rest else s)
          in (case ParseUint digits of
                Inl err \<Rightarrow> Inl err
              | Inr un \<Rightarrow>
                  if \<not> neg \<and> un \<ge> 2 ^ 63 then Inl ErrRange
                  else if neg \<and> un > 2 ^ 63 then Inl ErrRange
                  else Inr (word_of_int (if neg then - un else un))))"

section \<open>The request\<close>

text \<open>
  Of gin's \<open>Context\<close> the handlers read the URL query and the path parameters.
  \<open>c.Query(key)\<close> is the first value given for the key, the empty string when there is
  none; \<open>c.Param(key)\<close> likewise for the path.
\<close>

record Context =
  QueryValues :: "(string \<times> string) list"
  Params :: "(string \<times> string) list"

definition Context_Query :: "Context \<Rightarrow> string \<Rightarrow> string" where
  "Context_Query c key = (case map_of (QueryValues c) key of None \<Rightarrow> '''' | Some v \<Rightarrow> v)"

definition Context_Param :: "Context \<Rightarrow> string \<Rightarrow> string" where
  "Context_Param c key = (case map_of (Params c) key of None \<Rightarrow> '''' | Some v \<Rightarrow> v)"

section \<open>pkg/types and pkg/utils: pagination\<close>

text \<open>
  The three structs of \<open>pkg/types\<close>, with the fields \<open>cmd/api/main.go\<close> declares for
  them. Several structs share field names; a field is written with its struct where
  the struct is not the last one declared (\<open>PaginationParams.Page\<close>).
\<close>

record PaginationParams =
  Page :: go_int
  PageSize :: go_int

record SearchParams =
  Query :: string
  Page :: go_int
  PageSize :: go_int

record Pagination =
  Page :: go_int
  PageSize :: go_int
  Total :: go_int
  TotalPages :: go_int
  HasNext :: bool
  HasPrev :: bool

definition GetPaginationParams :: "Context \<Rightarrow> PaginationParams" where
  "GetPaginationParams c =
     (let params = \<lparr>PaginationParams.Page = 1, PageSize = 10\<rparr>;
          pageStr = Context_Query c ''page'';
          params =
            (if pageStr \<noteq> '''' then
               (case Atoi pageStr of
                  Inr page \<Rightarrow>
                    if 0 <s page then params\<lparr>PaginationParams.Page := page\<rparr> else params
                | Inl err \<Rightarrow> params)
             else params);
          pageSizeStr = Context_Query c ''page_size'';
          params =
            (if pageSizeStr \<noteq> '''' then
               (case Atoi pageSizeStr of
                  Inr pageSize \<Rightarrow>
                    if 0 <s pageSize then params\<lparr>PaginationParams.PageSize := pageSize\<rparr>
                    else params
                | Inl err \<Rightarrow> params)
             else params)
      in params)"

definition GetSearchParams :: "Context \<Rightarrow> SearchParams" where
  "GetSearchParams c =
     (let params = \<lparr>Query = Context_Query c ''q'', Page = 1, PageSize = 10\<rparr>;
          pageStr = Context_Query c ''page'';
          params =
            (if pageStr \<noteq> '''' then
               (case Atoi pageStr of
                  Inr page \<Rightarrow>
                    if 0 <s page then params\<lparr>SearchParams.Page := page\<rparr> else params
                | Inl err \<Rightarrow> params)
             else params);
          pageSizeStr = Context_Query c ''page_size'';
          params =
            (if pageSizeStr \<noteq> '''' then
               (case Atoi pageSizeStr of
                  Inr pageSize \<Rightarrow>
                    if 0 <s pageSize then params\<lparr>SearchParams.PageSize := pageSize\<rparr>
                    else params
                | Inl err \<Rightarrow> params)
             else params)
      in params)"

text \<open>
  \<open>CalculatePagination\<close>: the ceiling division is \<open>(total + pageSize - 1) / pageSize\<close>
  on Go integers, so the sum wraps and a zero \<open>pageSize\<close> panics.
\<close>

definition CalculatePagination :: "go_int \<Rightarrow> go_int \<Rightarrow> go_int \<Rightarrow> panic + Pagination" where
  "CalculatePagination page pageSize total' =
     (case go_div (total' + pageSize - 1) pageSize of
        Inl p \<Rightarrow> Inl p
      | Inr totalPages \<Rightarrow>
          Inr \<lparr>Pagination.Page = page,
               PageSize = pageSize,
               Total = total',
               TotalPages = totalPages,
               HasNext = (page <s totalPages),
               HasPrev = (1 <s page)\<rparr>)"

section \<open>internal/models\<close>

text \<open>
  \<open>versions_count\<close> is an \<open>INT\<close> column that only the store computes with
  (\<open>versions_count + 1\<close> in SQL); the Go code copies the field between the store, the
  struct and JSON and never does arithmetic on it, so the field is an \<open>int\<close> here.
\<close>

record Service =
  ID :: string
  Name :: string
  Slug :: string
  Description :: string
  CreatedAt :: string
  UpdatedAt :: string
  VersionsCount :: int

record Version =
  ID :: string
  ServiceID :: string
  Semver :: string
  Status :: string
  Changelog :: string
  CreatedAt :: string

section \<open>Go slices and their JSON\<close>

text \<open>
  \<open>var xs []T\<close> declares a nil slice; \<open>append\<close> to it gives a slice that is not nil.
  \<open>encoding/json\<close> writes a nil slice as \<open>null\<close> and any other slice as an array.
\<close>

datatype 'a slice = NilSlice | Slice "'a list"

fun go_append :: "'a slice \<Rightarrow> 'a \<Rightarrow> 'a slice" where
  "go_append NilSlice x = Slice [x]"
| "go_append (Slice xs) x = Slice (xs @ [x])"

fun elems :: "'a slice \<Rightarrow> 'a list" where
  "elems NilSlice = []"
| "elems (Slice xs) = xs"

datatype 'a json_array = JNull | JArray "'a list"

fun marshal_slice :: "'a slice \<Rightarrow> 'a json_array" where
  "marshal_slice NilSlice = JNull"
| "marshal_slice (Slice xs) = JArray xs"

section \<open>The store\<close>

text \<open>
  The store is MySQL behind \<open>database/sql\<close>, with the two tables of
  \<open>migrations/0001_init.sql\<close>. A table is the list of its rows in insertion order.
  \<open>now\<close> is \<open>CURRENT_TIMESTAMP\<close> as the driver hands it to a Go string, and
  \<open>relevance\<close> is the score of \<open>MATCH(name, description) AGAINST(? IN NATURAL LANGUAGE MODE)\<close>,
  which the store computes: a row matches when its score is positive.
  \<open>found_rows\<close> is the option \<open>clientFoundRows\<close> of the connection: with it, the affected
  rows that MySQL reports for an \<open>UPDATE\<close> are the rows its \<open>WHERE\<close> found; without it,
  the rows the statement changed. The DSN of \<open>connection.go\<close> (and the DSN of the
  integration tests) does not set it.

  Every call to the store either fails with an error (a constraint of the schema, a
  rejected argument, a lost connection) or takes effect as SQL says. Which calls fail is
  an input of the model: an accessor gets the outcomes of its calls in the order it makes
  them, \<open>Some text\<close> for a call that fails with that error text and \<open>None\<close> for a call
  that is accepted; calls beyond the end of the list are accepted.
\<close>

record store =
  services :: "Service list"
  versions :: "Version list"
  now :: string
  relevance :: "string \<Rightarrow> Service \<Rightarrow> real"
  found_rows :: bool

type_synonym outcomes = "string option list"

definition fault :: "outcomes \<Rightarrow> nat \<Rightarrow> string option" where
  "fault fs i = (if i < length fs then fs ! i else None)"

datatype db_error = ErrNoRows | StoreError string

fun Error_text :: "db_error \<Rightarrow> string" where
  "Error_text ErrNoRows = ''sql: no rows in result set''"
| "Error_text (StoreError text) = text"

text \<open>
  \<open>LIMIT ? OFFSET ?\<close> on the rows a query selected, in their order. A negative argument
  is one the store rejects: a failing call, not a result.
\<close>

definition limit_offset :: "go_int \<Rightarrow> go_int \<Rightarrow> 'a list \<Rightarrow> 'a list" where
  "limit_offset limit offset rows = take (nat (sint limit)) (drop (nat (sint offset)) rows)"

text \<open>
  The loop \<open>for rows.Next() { rows.Scan(...); append }\<close>: the \<open>i\<close>-th call of the
  accessor is the \<open>Scan\<close> of the next row. \<open>rows.Err()\<close> is never read by the
  accessors; the rows of the model are all delivered. The error of the deferred
  \<open>rows.Close()\<close> is logged and changes no result.
\<close>

fun scan_rows :: "outcomes \<Rightarrow> nat \<Rightarrow> 'a list \<Rightarrow> 'a slice \<Rightarrow> db_error + 'a slice" where
  "scan_rows fs i [] acc = Inr acc"
| "scan_rows fs i (row # rows) acc =
     (case fault fs i of
        Some err \<Rightarrow> Inl (StoreError err)
      | None \<Rightarrow> scan_rows fs (Suc i) rows (go_append acc row))"

section \<open>internal/database: services\<close>

definition database_GetServices ::
  "store \<Rightarrow> outcomes \<Rightarrow> PaginationParams \<Rightarrow> db_error + (Service slice \<times> go_int)" where
  "database_GetServices db fs params =
     (let offset = (PaginationParams.Page params - 1) * PaginationParams.PageSize params in
      case fault fs 0 of
        Some err \<Rightarrow> Inl (StoreError err)
      | None \<Rightarrow>
          let total' = (word_of_nat (length (services db)) :: go_int) in
          (case fault fs 1 of
             Some err \<Rightarrow> Inl (StoreError err)
           | None \<Rightarrow>
               let rows = limit_offset (PaginationParams.PageSize params) offset
                            (rev (sort_key Service.CreatedAt (services db)))
               in (case scan_rows fs 2 rows NilSlice of
                     Inl err \<Rightarrow> Inl err
                   | Inr services' \<Rightarrow> Inr (services', total'))))"

definition matching :: "store \<Rightarrow> string \<Rightarrow> Service list" where
  "matching db q = filter (\<lambda>s. 0 < relevance db q s) (services db)"

definition database_SearchServices ::
  "store \<Rightarrow> outcomes \<Rightarrow> SearchParams \<Rightarrow> db_error + (Service slice \<times> go_int)" where
  "database_SearchServices db fs params =
     (let offset = (SearchParams.Page params - 1) * SearchParams.PageSize params in
      case fault fs 0 of
        Some err \<Rightarrow> Inl (StoreError err)
      | None \<Rightarrow>
          let total' = (word_of_nat (length (matching db (Query params))) :: go_int) in
          (case fault fs 1 of
             Some err \<Rightarrow> Inl (StoreError err)
           | None \<Rightarrow>
               let rows = limit_offset (SearchParams.PageSize params) offset
                            (rev (sort_key (\<lambda>s. (relevance db (Query params) s, Service.CreatedAt s))
                               (matching db (Query params))))
               in (case scan_rows fs 2 rows NilSlice of
                     Inl err \<Rightarrow> Inl err
                   | Inr services' \<Rightarrow> Inr (services', total'))))"

text \<open>
  \<open>INSERT INTO services (id, name, slug, description)\<close>: the other columns take their
  defaults, the current time and a count of 0.
\<close>

definition database_CreateService :: "store \<Rightarrow> outcomes \<Rightarrow> Service \<Rightarrow> db_error option \<times> store" where
  "database_CreateService db fs service =
     (case fault fs 0 of
        Some err \<Rightarrow> (Some (StoreError err), db)
      | None \<Rightarrow>
          (None,
           db\<lparr>services := services db @
                 [\<lparr>Service.ID = Service.ID service,
                   Name = Name service,
                   Slug = Slug service,
                   Description = Description service,
                   CreatedAt = now db,
                   UpdatedAt = now db,
                   VersionsCount = 0\<rparr>]\<rparr>))"

text \<open>\<open>QueryRow(...).Scan(...)\<close> reads the first selected row, \<open>sql.ErrNoRows\<close> if there is none.\<close>

definition database_GetServiceByID :: "store \<Rightarrow> outcomes \<Rightarrow> string \<Rightarrow> db_error + Service" where
  "database_GetServiceByID db fs id' =
     (case fault fs 0 of
        Some err \<Rightarrow> Inl (StoreError err)
      | None \<Rightarrow>
          (case filter (\<lambda>s. Service.ID s = id') (services db) of
             [] \<Rightarrow> Inl ErrNoRows
           | service # _ \<Rightarrow> Inr service))"

text \<open>
  \<open>UPDATE services SET name = ?, slug = ?, description = ? WHERE id = ?\<close>. A row that
  already holds the three values is left as it is, \<open>updated_at\<close> included
  (\<open>ON UPDATE CURRENT_TIMESTAMP\<close> follows a change of another column). The second call
  is \<open>result.RowsAffected()\<close>.
\<close>

definition changes :: "Service \<Rightarrow> Service \<Rightarrow> bool" where
  "changes service row =
     (Name row \<noteq> Name service \<or> Slug row \<noteq> Slug service \<or> Description row \<noteq> Description service)"

definition database_UpdateService ::
  "store \<Rightarrow> outcomes \<Rightarrow> string \<Rightarrow> Service \<Rightarrow> (db_error + int) \<times> store" where
  "database_UpdateService db fs id' service =
     (case fault fs 0 of
        Some err \<Rightarrow> (Inl (StoreError err), db)
      | None \<Rightarrow>
          let affected =
                filter (\<lambda>row. Service.ID row = id' \<and> (found_rows db \<or> changes service row))
                  (services db);
              db' = db\<lparr>services :=
                         map (\<lambda>row. if Service.ID row = id' \<and> changes service row
                                     then row\<lparr>Name := Name service,
                                              Slug := Slug service,
                                              Description := Description service,
                                              UpdatedAt := now db\<rparr>
                                     else row)
                           (services db)\<rparr>
          in (case fault fs 1 of
                Some err \<Rightarrow> (Inl (StoreError err), db')
              | None \<Rightarrow> (Inr (int (length affected)), db')))"

text \<open>
  \<open>DELETE FROM services WHERE id = ?\<close>; the foreign key of \<open>versions\<close> is
  \<open>ON DELETE CASCADE\<close>. The affected rows are the deleted rows of \<open>services\<close>.
\<close>

definition database_DeleteService ::
  "store \<Rightarrow> outcomes \<Rightarrow> string \<Rightarrow> (db_error + int) \<times> store" where
  "database_DeleteService db fs id' =
     (case fault fs 0 of
        Some err \<Rightarrow> (Inl (StoreError err), db)
      | None \<Rightarrow>
          let deleted = filter (\<lambda>row. Service.ID row = id') (services db);
              db' = db\<lparr>services := filter (\<lambda>row. Service.ID row \<noteq> id') (services db),
                       versions := filter (\<lambda>v. ServiceID v \<noteq> id') (versions db)\<rparr>
          in (case fault fs 1 of
                Some err \<Rightarrow> (Inl (StoreError err), db')
              | None \<Rightarrow> (Inr (int (length deleted)), db')))"

section \<open>internal/database: versions\<close>

definition database_GetVersions ::
  "store \<Rightarrow> outcomes \<Rightarrow> string \<Rightarrow> PaginationParams \<Rightarrow> db_error + (Version slice \<times> go_int)" where
  "database_GetVersions db fs serviceID params =
     (let offset = (PaginationParams.Page params - 1) * PaginationParams.PageSize params in
      case fault fs 0 of
        Some err \<Rightarrow> Inl (StoreError err)
      | None \<Rightarrow>
          let of_service = filter (\<lambda>v. ServiceID v = serviceID) (versions db);
              total' = (word_of_nat (length of_service) :: go_int)
          in (case fault fs 1 of
                Some err \<Rightarrow> Inl (StoreError err)
              | None \<Rightarrow>
                  let rows = limit_offset (PaginationParams.PageSize params) offset
                               (rev (sort_key Version.CreatedAt of_service))
                  in (case scan_rows fs 2 rows NilSlice of
                        Inl err \<Rightarrow> Inl err
                      | Inr versions' \<Rightarrow> Inr (versions', total'))))"

text \<open>
  A transaction works on its own view of the tables. \<open>Commit\<close> makes the view the
  store's state, or fails and leaves the store as it was; \<open>Rollback\<close> drops the view.
\<close>

definition tx_insert_version :: "store \<Rightarrow> Version \<Rightarrow> store" where
  "tx_insert_version tx version =
     tx\<lparr>versions := versions tx @
          [\<lparr>Version.ID = Version.ID version,
            ServiceID = ServiceID version,
            Semver = Semver version,
            Status = Status version,
            Changelog = Changelog version,
            CreatedAt = now tx\<rparr>]\<rparr>"

definition tx_increment_versions_count :: "store \<Rightarrow> string \<Rightarrow> store" where
  "tx_increment_versions_count tx serviceID =
     tx\<lparr>services :=
          map (\<lambda>row. if Service.ID row = serviceID
                      then row\<lparr>VersionsCount := VersionsCount row + 1, UpdatedAt := now tx\<rparr>
                      else row)
            (services tx)\<rparr>"

definition tx_Rollback :: "store \<Rightarrow> store \<Rightarrow> store" where
  "tx_Rollback db tx = db"

text \<open>
  \<open>CreateVersion\<close>: \<open>DB.Begin()\<close>, the deferred \<open>tx.Rollback()\<close>, the two
  \<open>tx.Exec\<close> and \<open>tx.Commit()\<close>. The deferred rollback runs on every return after
  \<open>Begin\<close>; after a \<open>Commit\<close> it finds the transaction done and only its error is logged.
\<close>

definition database_CreateVersion :: "store \<Rightarrow> outcomes \<Rightarrow> Version \<Rightarrow> db_error option \<times> store" where
  "database_CreateVersion db fs version =
     (case fault fs 0 of
        Some err \<Rightarrow> (Some (StoreError err), db)
      | None \<Rightarrow>
          let tx = db in
          (case fault fs 1 of
             Some err \<Rightarrow> (Some (StoreError err), tx_Rollback db tx)
           | None \<Rightarrow>
               let tx = tx_insert_version tx version in
               (case fault fs 2 of
                  Some err \<Rightarrow> (Some (StoreError err), tx_Rollback db tx)
                | None \<Rightarrow>
                    let tx = tx_increment_versions_count tx (ServiceID version) in
                    (case fault fs 3 of
                       Some err \<Rightarrow> (Some (StoreError err), tx_Rollback db tx)
                     | None \<Rightarrow> (None, tx)))))"

section \<open>internal/handlers\<close>

text \<open>
  A handler answers with \<open>c.JSON(status, value)\<close>; the body of the model is the value
  as JSON. \<open>gin.H{"error": text}\<close> is \<open>H_error text\<close>. A handler that panics answers
  nothing itself. A handler that writes to the store returns the store as it has become.

  \<open>c.ShouldBindJSON(&v)\<close> is an input of the model: the error text of a body that does
  not bind, or the struct as bound (a field the body leaves out has its zero value; the
  struct has no binding rules). So is \<open>uuid.New().String()\<close>.
\<close>

datatype body =
    H_error string
  | H_message string
  | ServiceJSON Service
  | VersionJSON Version
  | ServicesPage "Service json_array" Pagination
  | VersionsPage "Version json_array" Pagination

datatype response = Response nat body | Panicked panic

abbreviation StatusOK :: nat where "StatusOK \<equiv> 200"
abbreviation StatusCreated :: nat where "StatusCreated \<equiv> 201"
abbreviation StatusBadRequest :: nat where "StatusBadRequest \<equiv> 400"
abbreviation StatusNotFound :: nat where "StatusNotFound \<equiv> 404"
abbreviation StatusInternalServerError :: nat where "StatusInternalServerError \<equiv> 500"

fun responds :: "response \<Rightarrow> nat \<Rightarrow> bool" where
  "responds (Response code _) status = (code = status)"
| "responds (Panicked _) status = False"

definition handlers_GetServices :: "store \<Rightarrow> outcomes \<Rightarrow> Context \<Rightarrow> response" where
  "handlers_GetServices db fs c =
     (let params = GetPaginationParams c in
      if PaginationParams.Page params <s 1 then
        Response StatusBadRequest (H_error ''page must be greater than 0'')
      else if PaginationParams.PageSize params <s 1 \<or> 100 <s PaginationParams.PageSize params then
        Response StatusBadRequest (H_error ''page_size must be between 1 and 100'')
      else
        (case database_GetServices db fs params of
           Inl err \<Rightarrow> Response StatusInternalServerError (H_error (Error_text err))
         | Inr (services', total') \<Rightarrow>
             (case CalculatePagination (PaginationParams.Page params)
                     (PaginationParams.PageSize params) total' of
                Inl p \<Rightarrow> Panicked p
              | Inr pagination \<Rightarrow>
                  Response StatusOK (ServicesPage (marshal_slice services') pagination))))"

definition handlers_SearchServices :: "store \<Rightarrow> outcomes \<Rightarrow> Context \<Rightarrow> response" where
  "handlers_SearchServices db fs c =
     (let params = GetSearchParams c in
      if Query params = [] then
        Response StatusBadRequest (H_error ''search query 'q' is required'')
      else if SearchParams.Page params <s 1 then
        Response StatusBadRequest (H_error ''page must be greater than 0'')
      else if SearchParams.PageSize params <s 1 \<or> 100 <s SearchParams.PageSize params then
        Response StatusBadRequest (H_error ''page_size must be between 1 and 100'')
      else
        (case database_SearchServices db fs params of
           Inl err \<Rightarrow> Response StatusInternalServerError (H_error (Error_text err))
         | Inr (services', total') \<Rightarrow>
             (case CalculatePagination (SearchParams.Page params)
                     (SearchParams.PageSize params) total' of
                Inl p \<Rightarrow> Panicked p
              | Inr pagination \<Rightarrow>
                  Response StatusOK (ServicesPage (marshal_slice services') pagination))))"

definition handlers_CreateService ::
  "store \<Rightarrow> outcomes \<Rightarrow> string \<Rightarrow> string + Service \<Rightarrow> response \<times> store" where
  "handlers_CreateService db fs uuid bound =
     (case bound of
        Inl err \<Rightarrow> (Response StatusBadRequest (H_error err), db)
      | Inr service \<Rightarrow>
          let service = service\<lparr>Service.ID := uuid\<rparr> in
          (case database_CreateService db fs service of
             (Some err, db') \<Rightarrow>
               (Response StatusInternalServerError (H_error (Error_text err)), db')
           | (None, db') \<Rightarrow> (Response StatusCreated (ServiceJSON service), db')))"

definition handlers_GetService :: "store \<Rightarrow> outcomes \<Rightarrow> Context \<Rightarrow> response" where
  "handlers_GetService db fs c =
     (let id' = Context_Param c ''id'' in
      case database_GetServiceByID db fs id' of
        Inl ErrNoRows \<Rightarrow> Response StatusNotFound (H_error ''Service not found'')
      | Inl err \<Rightarrow> Response StatusInternalServerError (H_error (Error_text err))
      | Inr service \<Rightarrow> Response StatusOK (ServiceJSON service))"

definition handlers_UpdateService ::
  "store \<Rightarrow> outcomes \<Rightarrow> Context \<Rightarrow> string + Service \<Rightarrow> response \<times> store" where
  "handlers_UpdateService db fs c bound =
     (let id' = Context_Param c ''id'' in
      case bound of
        Inl err \<Rightarrow> (Response StatusBadRequest (H_error err), db)
      | Inr service \<Rightarrow>
          (case database_UpdateService db fs id' service of
             (Inl err, db') \<Rightarrow>
               (Response StatusInternalServerError (H_error (Error_text err)), db')
           | (Inr rowsAffected, db') \<Rightarrow>
               if rowsAffected = 0 then
                 (Response StatusNotFound (H_error ''Service not found''), db')
               else (Response StatusOK (ServiceJSON (service\<lparr>Service.ID := id'\<rparr>)), db')))"

definition handlers_DeleteService :: "store \<Rightarrow> outcomes \<Rightarrow> Context \<Rightarrow> response \<times> store" where
  "handlers_DeleteService db fs c =
     (let id' = Context_Param c ''id'' in
      case database_DeleteService db fs id' of
        (Inl err, db') \<Rightarrow>
          (Response StatusInternalServerError (H_error (Error_text err)), db')
      | (Inr rowsAffected, db') \<Rightarrow>
          if rowsAffected = 0 then
            (Response StatusNotFound (H_error ''Service not found''), db')
          else (Response StatusOK (H_message ''Service deleted''), db'))"

definition handlers_GetVersions :: "store \<Rightarrow> outcomes \<Rightarrow> Context \<Rightarrow> response" where
  "handlers_GetVersions db fs c =
     (let serviceID = Context_Param c ''id'';
          params = GetPaginationParams c
      in
      if PaginationParams.Page params <s 1 then
        Response StatusBadRequest (H_error ''page must be greater than 0'')
      else if PaginationParams.PageSize params <s 1 \<or> 100 <s PaginationParams.PageSize params then
        Response StatusBadRequest (H_error ''page_size must be between 1 and 100'')
      else
        (case database_GetVersions db fs serviceID params of
           Inl err \<Rightarrow> Response StatusInternalServerError (H_error (Error_text err))
         | Inr (versions', total') \<Rightarrow>
             (case CalculatePagination (PaginationParams.Page params)
                     (PaginationParams.PageSize params) total' of
                Inl p \<Rightarrow> Panicked p
              | Inr pagination \<Rightarrow>
                  Response StatusOK (VersionsPage (marshal_slice versions') pagination))))"

definition handlers_CreateVersion ::
  "store \<Rightarrow> outcomes \<Rightarrow> string \<Rightarrow> Context \<Rightarrow> string + Version \<Rightarrow> response \<times> store" where
  "handlers_CreateVersion db fs uuid c bound =
     (let serviceID = Context_Param c ''id'' in
      case bound of
        Inl err \<Rightarrow> (Response StatusBadRequest (H_error err), db)
      | Inr version \<Rightarrow>
          let version = version\<lparr>Version.ID := uuid, ServiceID := serviceID\<rparr> in
          (case database_CreateVersion db fs version of
             (Some err, db') \<Rightarrow>
               (Response StatusInternalServerError (H_error (Error_text err)), db')
           | (None, db') \<Rightarrow> (Response StatusCreated (VersionJSON version), db')))"

section \<open>The seeded store of the integration tests\<close>

text \<open>
  The rows that \<open>seedTestData\<close> inserts, with the counts its last statement computes.
  The relevance scores are those the tests expect of the store: \<open>test\<close> matches the
  first two services, \<open>notification\<close> the third, and nothing else matches.
\<close>

definition seed_services :: "Service list" where
  "seed_services =
     [\<lparr>Service.ID = ''service-1'', Name = ''Test Service 1'', Slug = ''test-service-1'',
       Description = ''First test service'',
       CreatedAt = ''2024-01-01T00:00:00Z'', UpdatedAt = ''2024-01-01T00:00:00Z'',
       VersionsCount = 2\<rparr>,
      \<lparr>Service.ID = ''service-2'', Name = ''Test Service 2'', Slug = ''test-service-2'',
       Description = ''Second test service'',
       CreatedAt = ''2024-01-01T00:00:00Z'', UpdatedAt = ''2024-01-01T00:00:00Z'',
       VersionsCount = 1\<rparr>,
      \<lparr>Service.ID = ''service-3'', Name = ''Notification Service'', Slug = ''notification-service'',
       Description = ''Service for sending notifications'',
       CreatedAt = ''2024-01-01T00:00:00Z'', UpdatedAt = ''2024-01-01T00:00:00Z'',
       VersionsCount = 1\<rparr>]"

definition seed_versions :: "Version list" where
  "seed_versions =
     [\<lparr>Version.ID = ''version-1'', ServiceID = ''service-1'', Semver = ''1.0.0'',
       Status = ''released'', Changelog = ''Initial release'', CreatedAt = ''2024-01-01T00:00:00Z''\<rparr>,
      \<lparr>Version.ID = ''version-2'', ServiceID = ''service-1'', Semver = ''1.1.0'',
       Status = ''released'', Changelog = ''Minor update'', CreatedAt = ''2024-01-01T00:00:00Z''\<rparr>,
      \<lparr>Version.ID = ''version-3'', ServiceID = ''service-2'', Semver = ''0.1.0'',
       Status = ''draft'', Changelog = ''Work in progress'', CreatedAt = ''2024-01-01T00:00:00Z''\<rparr>,
      \<lparr>Version.ID = ''version-4'', ServiceID = ''service-3'', Semver = ''2.0.0'',
       Status = ''released'', Changelog = ''Major update'', CreatedAt = ''2024-01-01T00:00:00Z''\<rparr>]"

definition seed_relevance :: "string \<Rightarrow> Service \<Rightarrow> real" where
  "seed_relevance q s =
     (if q = ''test'' \<and> (Service.ID s = ''service-1'' \<or> Service.ID s = ''service-2'') then 1
      else if q = ''notification'' \<and> Service.ID s = ''service-3'' then 1
      else 0)"

definition seed_db :: store where
  "seed_db =
     \<lparr>services = seed_services, versions = seed_versions,
      now = ''2024-02-01T00:00:00Z'', relevance = seed_relevance, found_rows = False\<rparr>"

definition at_id :: "string \<Rightarrow> Context" where
  "at_id id' = \<lparr>QueryValues = [], Params = [(''id'', id')]\<rparr>"

text \<open>The bodies the integration tests post, as bound: fields they leave out are empty.\<close>

definition new_version :: Version where
  "new_version =
     \<lparr>Version.ID = [], ServiceID = [], Semver = ''1.2.0'', Status = ''released'',
      Changelog = ''New feature release'', CreatedAt = []\<rparr>"

definition new_service :: Service where
  "new_service =
     \<lparr>Service.ID = [], Name = ''New Test Service'', Slug = ''new-test-service'',
      Description = ''A new test service'', CreatedAt = [], UpdatedAt = [], VersionsCount = 0\<rparr>"

section \<open>The specification's words for the extraction\<close>

text \<open>
  Sections 4.1 and 8.3 of the specification: a parameter that is absent or empty
  (\<open>c.Query\<close> gives the empty string for both), that is not a number, or that is zero or
  negative gives the default of its field; a positive integer is used as it is.
\<close>

definition spec_extract :: "go_int \<Rightarrow> string \<Rightarrow> go_int" where
  "spec_extract dflt raw =
     (if raw = [] then dflt
      else case Atoi raw of
             Inl err \<Rightarrow> dflt
           | Inr n \<Rightarrow> if n \<le>s 0 then dflt else n)"

text \<open>The decimal numeral of a natural number, as a client writes it into the URL.\<close>

fun decimal :: "nat \<Rightarrow> string" where
  "decimal n =
     (if n < 10 then [char_of (48 + n)]
      else decimal (n div 10) @ [char_of (48 + n mod 10)])"

text \<open>A numeric parameter: an optional sign and then digits only, at least one.\<close>

definition unsigned :: "string \<Rightarrow> string" where
  "unsigned s =
     (case s of
        [] \<Rightarrow> []
      | ch # rest \<Rightarrow> if ch = CHR ''+'' \<or> ch = CHR ''-'' then rest else s)"

definition numeric :: "string \<Rightarrow> bool" where
  "numeric s = (unsigned s \<noteq> [] \<and> list_all is_digit (unsigned s))"

text \<open>Requests with the one query parameter \<open>page_size\<close>, and a search for a word.\<close>

definition with_page_size :: "string \<Rightarrow> Context" where
  "with_page_size v = \<lparr>QueryValues = [(''page_size'', v)], Params = [(''id'', ''service-1'')]\<rparr>"

definition search_for :: "string \<Rightarrow> Context" where
  "search_for q = \<lparr>QueryValues = [(''q'', q)], Params = []\<rparr>"

text \<open>
  Bodies for the service endpoints: one that posts a count, one that puts the values
  \<open>service-1\<close> has already, and one that renames it and names another id.
\<close>

definition counted_service :: Service where
  "counted_service =
     \<lparr>Service.ID = [], Name = ''Counted'', Slug = ''counted'',
      Description = ''Posted with a count'', CreatedAt = [], UpdatedAt = [], VersionsCount = 5\<rparr>"

definition unchanged_service_1 :: Service where
  "unchanged_service_1 =
     \<lparr>Service.ID = [], Name = ''Test Service 1'', Slug = ''test-service-1'',
      Description = ''First test service'', CreatedAt = [], UpdatedAt = [], VersionsCount = 0\<rparr>"

definition renamed_service_1 :: Service where
  "renamed_service_1 =
     \<lparr>Service.ID = ''service-2'', Name = ''Renamed'', Slug = ''renamed'',
      Description = [], CreatedAt = [], UpdatedAt = [], VersionsCount = 0\<rparr>"

section \<open>Pagination metadata\<close>

lemma ceiling_div_int:
  fixes t p :: int
  assumes "0 < p"
  shows "\<lceil>real_of_int t / real_of_int p\<rceil> = (t + p - 1) div p"
proof -
  define q where "q = (t + p - 1) div p"
  define r where "r = (t + p - 1) mod p"
  have r: "0 \<le> r" "r < p" using assms by (simp_all add: r_def)
  have eq: "t + p - 1 = p * q + r" by (simp add: q_def r_def)
  have "- t = p * (- q) + (p - 1 - r)" using eq by (simp add: algebra_simps)
  moreover have "0 \<le> p - 1 - r" "p - 1 - r < p" using r by simp_all
  ultimately have "(- t) div p = - q"
    by (rule int_div_pos_eq)
  then show ?thesis by (simp add: q_def ceiling_divide_eq_div)
qed

lemma sint_of_int64:
  "- (2 ^ 63) \<le> k \<Longrightarrow> k < 2 ^ 63 \<Longrightarrow> sint (word_of_int k :: go_int) = k"
  by (simp add: sint_sbintrunc' signed_take_bit_int_eq_self)

lemma sint_ceiling_sum:
  fixes t p :: go_int
  assumes "1 \<le> sint p" "0 \<le> sint t" "sint t + sint p - 1 < 2 ^ 63"
  shows "sint (t + p - 1) = sint t + sint p - 1"
proof -
  have "t + p - 1 = word_of_int (sint t + sint p - 1)" by simp
  moreover have "- (2 ^ 63) \<le> sint t + sint p - 1" using assms by simp
  ultimately show ?thesis using assms(3) by (simp only: sint_of_int64)
qed

lemma sdiv_nonneg: "0 \<le> (a::int) \<Longrightarrow> 0 < b \<Longrightarrow> a sdiv b = a div b"
  by (cases "a = 0") (simp_all add: signed_divide_int_def)

text \<open>
  Claim C2, as amended. For \<open>page \<ge> 1\<close>, \<open>pageSize \<ge> 1\<close> and \<open>total \<ge> 0\<close> whose sum
  \<open>total + pageSize - 1\<close> does not leave the range of Go's \<open>int\<close>, \<open>CalculatePagination\<close>
  returns the record that echoes its three arguments, with
  \<open>totalPages = \<lceil>total / pageSize\<rceil>\<close> (0 exactly when \<open>total\<close> is 0),
  \<open>hasNext\<close> true exactly when \<open>page < totalPages\<close> and \<open>hasPrev\<close> exactly when \<open>page > 1\<close>.
\<close>

theorem CalculatePagination_ceiling:
  assumes "1 \<le>s page" and "1 \<le>s pageSize" and "0 \<le>s total'"
    and "sint total' + sint pageSize - 1 < 2 ^ 63"
  shows "\<exists>totalPages.
    CalculatePagination page pageSize total' =
      Inr \<lparr>Pagination.Page = page, PageSize = pageSize, Total = total',
           TotalPages = totalPages,
           HasNext = (sint page < sint totalPages), HasPrev = (1 < sint page)\<rparr>
    \<and> sint totalPages = \<lceil>real_of_int (sint total') / real_of_int (sint pageSize)\<rceil>
    \<and> (totalPages = 0 \<longleftrightarrow> total' = 0)"
proof -
  have p: "1 \<le> sint pageSize" and t: "0 \<le> sint total'"
    using assms by (simp_all add: word_sle_eq)
  define s where "s = sint total' + sint pageSize - 1"
  have s: "sint (total' + pageSize - 1) = s"
    unfolding s_def using p t assms(4) by (rule sint_ceiling_sum)
  have s0: "0 \<le> s" using p t by (simp add: s_def)
  define q where "q = s div sint pageSize"
  have q0: "0 \<le> q" using s0 p by (simp add: q_def pos_imp_zdiv_nonneg_iff)
  have "q \<le> s"
  proof (cases "s = 0")
    case True
    then show ?thesis by (simp add: q_def)
  next
    case False
    then have "0 < s" using s0 by simp
    then show ?thesis unfolding q_def by (rule int_div_le_self)
  qed
  then have q1: "q < 2 ^ 63" using assms(4) by (simp add: s_def)
  have nz: "pageSize \<noteq> 0" using p by auto
  have sq: "sint (word_of_int q :: go_int) = q"
    using q0 q1 by (simp add: sint_of_int64)
  have dv: "go_div (total' + pageSize - 1) pageSize = Inr (word_of_int q)"
    using nz s s0 p by (simp add: go_div_def q_def sdiv_nonneg)
  have ceil: "\<lceil>real_of_int (sint total') / real_of_int (sint pageSize)\<rceil> = q"
    using p ceiling_div_int [of "sint pageSize" "sint total'"] by (simp add: q_def s_def)
  have zero: "(word_of_int q :: go_int) = 0 \<longleftrightarrow> total' = 0"
  proof -
    have "(word_of_int q :: go_int) = 0 \<longleftrightarrow> q = 0"
    proof
      assume "(word_of_int q :: go_int) = 0"
      then have "sint (word_of_int q :: go_int) = 0" by simp
      then show "q = 0" using sq by simp
    next
      assume "q = 0"
      then show "(word_of_int q :: go_int) = 0" by simp
    qed
    also have "\<dots> \<longleftrightarrow> s < sint pageSize"
    proof
      assume "q = 0"
      then have "s = s mod sint pageSize"
        using div_mult_mod_eq [of s "sint pageSize"] by (simp add: q_def)
      moreover have "s mod sint pageSize < sint pageSize" using p by simp
      ultimately show "s < sint pageSize" by simp
    next
      assume "s < sint pageSize"
      then show "q = 0" using s0 by (simp add: q_def)
    qed
    also have "\<dots> \<longleftrightarrow> sint total' = 0" unfolding s_def using t by arith
    also have "\<dots> \<longleftrightarrow> total' = 0" by (rule signed_eq_0_iff)
    finally show ?thesis .
  qed
  show ?thesis
    apply (rule exI [of _ "word_of_int q"])
    using dv sq ceil zero
    by (simp add: CalculatePagination_def word_sless_alt)
qed

text \<open>The middle page of the repository's test: 25 items in pages of 10, page 2.\<close>

theorem CalculatePagination_ceiling_witness:
  "1 \<le>s (2 :: go_int) \<and> 1 \<le>s (10 :: go_int) \<and> 0 \<le>s (25 :: go_int)
   \<and> sint (25 :: go_int) + sint (10 :: go_int) - 1 < 2 ^ 63
   \<and> CalculatePagination 2 10 25 =
       Inr \<lparr>Pagination.Page = 2, PageSize = 10, Total = 25, TotalPages = 3,
            HasNext = True, HasPrev = True\<rparr>"
proof -
  have h: "1 \<le>s (2 :: go_int)" "1 \<le>s (10 :: go_int)" "0 \<le>s (25 :: go_int)"
    "sint (25 :: go_int) + sint (10 :: go_int) - 1 < 2 ^ 63"
    by (simp_all add: word_sle_eq)
  from CalculatePagination_ceiling [OF h]
  obtain tp :: go_int where
    eq: "CalculatePagination 2 10 25 =
      Inr \<lparr>Pagination.Page = 2, PageSize = 10, Total = 25, TotalPages = tp,
           HasNext = (sint (2 :: go_int) < sint tp), HasPrev = (1 < sint (2 :: go_int))\<rparr>"
    and tp: "sint tp = \<lceil>real_of_int (sint (25 :: go_int)) / real_of_int (sint (10 :: go_int))\<rceil>"
    by blast
  have "sint tp = 3" using tp by simp
  then have "sint tp = sint (3 :: go_int)" by simp
  then have "tp = 3" by (simp only: word_eq_iff_signed [where ?'a = int, symmetric])
  with eq h show ?thesis by simp
qed

text \<open>
  Claim C2 as stated fails where the sum wraps: with \<open>total\<close> the largest \<open>int\<close> and
  \<open>pageSize = 2\<close> the sum is the smallest \<open>int\<close>, \<open>totalPages\<close> is \<open>- 2 ^ 62\<close> and not
  the ceiling \<open>2 ^ 62\<close>, and \<open>hasNext\<close> is false although \<open>page < \<lceil>total / pageSize\<rceil>\<close>.
\<close>

theorem CalculatePagination_overflow_counterexample:
  "1 \<le>s (1 :: go_int) \<and> 1 \<le>s (2 :: go_int) \<and> 0 \<le>s (9223372036854775807 :: go_int)
   \<and> CalculatePagination 1 2 9223372036854775807 =
       Inr \<lparr>Pagination.Page = 1, PageSize = 2, Total = 9223372036854775807,
            TotalPages = - 4611686018427387904, HasNext = False, HasPrev = False\<rparr>
   \<and> \<lceil>real_of_int (sint (9223372036854775807 :: go_int)) / real_of_int (sint (2 :: go_int))\<rceil>
       = 4611686018427387904
   \<and> sint (- 4611686018427387904 :: go_int) = - 4611686018427387904"
  by (simp add: CalculatePagination_def go_div_def signed_divide_int_def word_sle_eq word_sless_alt)

section \<open>Creating a version\<close>

text \<open>
  Claim C1. \<open>CreateVersion\<close> makes four calls: \<open>Begin\<close>, the \<open>INSERT\<close> of the version
  row, the \<open>UPDATE\<close> that adds 1 to \<open>versions_count\<close> of the rows of \<open>services\<close> with
  the version's service id, and \<open>Commit\<close>. When the store accepts all four, the accessor
  returns no error and the store holds both writes; when any of them fails, the accessor
  returns an error and the store is the store as it was before the call. There is no
  third outcome, so the row is never there without the increment, nor the increment
  without the row.
\<close>

theorem CreateVersion_atomic:
  "(fault fs 0 = None \<and> fault fs 1 = None \<and> fault fs 2 = None \<and> fault fs 3 = None \<longrightarrow>
      database_CreateVersion db fs version =
        (None,
         db\<lparr>versions := versions db @
               [\<lparr>Version.ID = Version.ID version, ServiceID = ServiceID version,
                 Semver = Semver version, Status = Status version,
                 Changelog = Changelog version, CreatedAt = now db\<rparr>],
            services :=
               map (\<lambda>row. if Service.ID row = ServiceID version
                           then row\<lparr>VersionsCount := VersionsCount row + 1, UpdatedAt := now db\<rparr>
                           else row)
                 (services db)\<rparr>))
   \<and> (\<not> (fault fs 0 = None \<and> fault fs 1 = None \<and> fault fs 2 = None \<and> fault fs 3 = None) \<longrightarrow>
        (\<exists>err. database_CreateVersion db fs version = (Some err, db)))"
  by (auto simp: database_CreateVersion_def tx_Rollback_def tx_insert_version_def
      tx_increment_versions_count_def Let_def split: option.splits)

text \<open>
  On the seeded store: a version of \<open>service-1\<close> with every call accepted, and the same
  version when the \<open>UPDATE\<close> fails.
\<close>

theorem CreateVersion_atomic_witness:
  "fault [] 0 = None \<and> fault [] 1 = None \<and> fault [] 2 = None \<and> fault [] 3 = None
   \<and> database_CreateVersion seed_db [] (new_version\<lparr>Version.ID := ''v-uuid'', ServiceID := ''service-1''\<rparr>) =
       (None,
        seed_db\<lparr>versions := seed_versions @
              [\<lparr>Version.ID = ''v-uuid'', ServiceID = ''service-1'', Semver = ''1.2.0'',
                Status = ''released'', Changelog = ''New feature release'',
                CreatedAt = ''2024-02-01T00:00:00Z''\<rparr>],
           services :=
              [(seed_services ! 0)\<lparr>VersionsCount := 3, UpdatedAt := ''2024-02-01T00:00:00Z''\<rparr>,
               seed_services ! 1, seed_services ! 2]\<rparr>)
   \<and> fault [None, None, Some ''Lock wait timeout exceeded''] 2 \<noteq> None
   \<and> (\<exists>err. database_CreateVersion seed_db [None, None, Some ''Lock wait timeout exceeded'']
                (new_version\<lparr>Version.ID := ''v-uuid'', ServiceID := ''service-1''\<rparr>) = (Some err, seed_db))"
  using
    CreateVersion_atomic [of "[]" seed_db "new_version\<lparr>Version.ID := ''v-uuid'', ServiceID := ''service-1''\<rparr>"]
    CreateVersion_atomic [of "[None, None, Some ''Lock wait timeout exceeded'']" seed_db
      "new_version\<lparr>Version.ID := ''v-uuid'', ServiceID := ''service-1''\<rparr>"]
  by (simp add: fault_def seed_db_def seed_services_def new_version_def)

text \<open>
  Claim C6. The handler binds the body, sets the id and the service id of the path, and
  calls the accessor; neither looks the service up. When the store accepts the four
  calls of the accessor the handler answers 201 with the version, whatever the table of
  services holds, and the row is in the table of versions; when no service has the id of
  the path the \<open>UPDATE\<close> changes no row, and that is no error.
\<close>

theorem CreateVersion_unknown_service:
  assumes "fault fs 0 = None" and "fault fs 1 = None" and "fault fs 2 = None" and "fault fs 3 = None"
  shows "\<exists>db'.
    handlers_CreateVersion db fs uuid c (Inr version) =
      (Response StatusCreated
         (VersionJSON (version\<lparr>Version.ID := uuid, ServiceID := Context_Param c ''id''\<rparr>)), db')
    \<and> versions db' = versions db @
          [\<lparr>Version.ID = uuid, ServiceID = Context_Param c ''id'', Semver = Semver version,
            Status = Status version, Changelog = Changelog version, CreatedAt = now db\<rparr>]
    \<and> ((\<forall>row \<in> set (services db). Service.ID row \<noteq> Context_Param c ''id'') \<longrightarrow>
          services db' = services db)"
proof -
  have same: "(\<forall>row \<in> set rows. Service.ID row \<noteq> i) \<Longrightarrow>
      map (\<lambda>row. if Service.ID row = i then f row else row) rows = rows" for rows i
    and f :: "Service \<Rightarrow> Service"
    by (induction rows) simp_all
  show ?thesis
    using assms
    by (auto simp: handlers_CreateVersion_def database_CreateVersion_def tx_insert_version_def
        tx_increment_versions_count_def Let_def same)
qed

text \<open>The integration test's version for the service id \<open>non-existing\<close>, on the seeded store.\<close>

theorem CreateVersion_unknown_service_witness:
  "fault [] 0 = None \<and> fault [] 1 = None \<and> fault [] 2 = None \<and> fault [] 3 = None
   \<and> list_all (\<lambda>row. Service.ID row \<noteq> Context_Param (at_id ''non-existing'') ''id'') (services seed_db)
   \<and> fst (handlers_CreateVersion seed_db [] ''v-uuid'' (at_id ''non-existing'') (Inr new_version)) =
       Response StatusCreated
         (VersionJSON \<lparr>Version.ID = ''v-uuid'', ServiceID = ''non-existing'', Semver = ''1.2.0'',
            Status = ''released'', Changelog = ''New feature release'', CreatedAt = []\<rparr>)
   \<and> services (snd (handlers_CreateVersion seed_db [] ''v-uuid'' (at_id ''non-existing'') (Inr new_version)))
       = services seed_db"
proof -
  have f: "fault [] 0 = None" "fault [] 1 = None" "fault [] 2 = None" "fault [] 3 = None"
    by (simp_all add: fault_def)
  have fresh: "\<forall>row \<in> set (services seed_db). Service.ID row \<noteq> Context_Param (at_id ''non-existing'') ''id''"
    by (simp add: seed_db_def seed_services_def at_id_def Context_Param_def)
  from CreateVersion_unknown_service [OF f, of seed_db "''v-uuid''" "at_id ''non-existing''" new_version] fresh f
  show ?thesis
    by (auto simp: list_all_iff new_version_def at_id_def Context_Param_def)
qed

section \<open>Extraction of the pagination parameters\<close>

lemma is_digit_char_of: "(d::nat) < 10 \<Longrightarrow> is_digit (char_of (48 + d))"
  by (simp add: is_digit_def)

lemma digit_val_char_of: "(d::nat) < 10 \<Longrightarrow> digit_val (char_of (48 + d)) = int d"
  by (simp add: digit_val_def)

lemma digit_val_range: "is_digit ch \<Longrightarrow> 0 \<le> digit_val ch \<and> digit_val ch \<le> 9"
  by (auto simp: is_digit_def digit_val_def)

lemma parse_uint_append:
  "parse_uint n (s @ [ch]) =
     (case parse_uint n s of
        Inl err \<Rightarrow> Inl err
      | Inr m \<Rightarrow> parse_uint m [ch])"
  by (induction s arbitrary: n) simp_all

lemma parse_uint_decimal:
  "int n < 2 ^ 64 \<Longrightarrow> parse_uint 0 (decimal n) = Inr (int n)"
proof (induction n rule: decimal.induct)
  case (1 n)
  show ?case
  proof (cases "n < 10")
    case True
    then show ?thesis
      by (subst decimal.simps) (simp add: is_digit_char_of digit_val_char_of del: decimal.simps)
  next
    case False
    have lt: "int (n div 10) < 2 ^ 64" using "1.prems" by (simp add: zdiv_int) 
    have ih: "parse_uint 0 (decimal (n div 10)) = Inr (int (n div 10))"
      using "1.IH" [OF False lt] .
    have d: "n mod 10 < 10" by simp
    have split: "int (n div 10) * 10 + int (n mod 10) = int n"
      by (metis (no_types) mult.commute of_nat_add of_nat_mult of_nat_numeral div_mult_mod_eq mult.commute)
    have cut: "\<not> (int (n div 10) \<ge> (2 ^ 64 - 1) div 10 + 1)"
      using "1.prems" split by simp
    show ?thesis
      using False ih cut "1.prems" split
      by (subst decimal.simps)
         (simp add: parse_uint_append is_digit_char_of [OF d] digit_val_char_of [OF d]
            del: decimal.simps)
  qed
qed

lemma decimal_not_Nil: "decimal n \<noteq> []"
  by (subst decimal.simps) (simp del: decimal.simps)

lemma hd_decimal_digit: "is_digit (hd (decimal n))"
proof (induction n rule: decimal.induct)
  case (1 n)
  show ?case
  proof (cases "n < 10")
    case True
    then show ?thesis
      by (subst decimal.simps) (simp add: is_digit_char_of del: decimal.simps)
  next
    case False
    then show ?thesis
      using "1.IH" decimal_not_Nil [of "n div 10"]
      by (subst decimal.simps) (simp del: decimal.simps)
  qed
qed

lemma Atoi_decimal:
  assumes "int n < 2 ^ 63"
  shows "Atoi (decimal n) = Inr (word_of_nat n)"
proof -
  obtain ch rest where s: "decimal n = ch # rest"
    using decimal_not_Nil [of n] by (cases "decimal n") (auto simp del: decimal.simps)
  have "is_digit ch" using hd_decimal_digit [of n] s by (simp del: decimal.simps)
  then have sign: "ch \<noteq> CHR ''+''" "ch \<noteq> CHR ''-''"
    by (auto simp: is_digit_def)
  have "parse_uint 0 (decimal n) = Inr (int n)"
    using assms by (intro parse_uint_decimal) simp
  then show ?thesis
    using s sign assms by (simp add: Atoi_def ParseUint_def del: decimal.simps)
qed

lemma Atoi_minus_decimal:
  assumes "int n \<le> 2 ^ 63"
  shows "Atoi (CHR ''-'' # decimal n) = Inr (- word_of_nat n)"
proof -
  have "parse_uint 0 (decimal n) = Inr (int n)"
    using assms by (intro parse_uint_decimal) simp
  then show ?thesis
    using assms decimal_not_Nil [of n] by (simp add: Atoi_def ParseUint_def del: decimal.simps)
qed

lemma parse_uint_non_digit:
  "\<exists>ch \<in> set s. \<not> is_digit ch \<Longrightarrow> \<exists>err. parse_uint n s = Inl err"
  by (induction s arbitrary: n) auto

lemma Atoi_not_numeric:
  assumes "\<not> numeric s"
  shows "\<exists>err. Atoi s = Inl err"
proof (cases s)
  case Nil
  then show ?thesis by (simp add: Atoi_def)
next
  case (Cons ch rest)
  define ds where "ds = (if ch = CHR ''+'' \<or> ch = CHR ''-'' then rest else s)"
  have u: "unsigned s = ds" by (simp add: unsigned_def Cons ds_def)
  have "\<exists>err. ParseUint ds = Inl err"
  proof (cases "ds = []")
    case True
    then show ?thesis by (simp add: ParseUint_def)
  next
    case False
    then have "\<exists>ch \<in> set ds. \<not> is_digit ch"
      using assms u by (auto simp: numeric_def list_all_iff)
    then show ?thesis
      using False parse_uint_non_digit [of ds 0] by (simp add: ParseUint_def)
  qed
  then show ?thesis
    by (auto simp: Atoi_def Cons ds_def Let_def)
qed

lemma spec_extract_ge1: "1 \<le>s dflt \<Longrightarrow> 1 \<le>s spec_extract dflt raw"
  by (auto simp: spec_extract_def word_sle_eq split: sum.splits)

lemma GetPaginationParams_spec:
  "GetPaginationParams c =
     \<lparr>PaginationParams.Page = spec_extract 1 (Context_Query c ''page''),
      PageSize = spec_extract 10 (Context_Query c ''page_size'')\<rparr>"
  by (auto simp: GetPaginationParams_def spec_extract_def Let_def word_sle_eq word_sless_alt
      split: sum.splits)

lemma GetSearchParams_spec:
  "GetSearchParams c =
     \<lparr>Query = Context_Query c ''q'',
      Page = spec_extract 1 (Context_Query c ''page''),
      PageSize = spec_extract 10 (Context_Query c ''page_size'')\<rparr>"
  by (auto simp: GetSearchParams_def spec_extract_def Let_def word_sle_eq word_sless_alt
      split: sum.splits)

text \<open>
  Claim C4. \<open>GetPaginationParams\<close>, and the page and page size of \<open>GetSearchParams\<close>, are the
  extraction of the specification: each is a total function into its record, so no
  input is an error, and each field is \<open>spec_extract\<close> of its default (1 and 10) and of
  \<open>c.Query\<close> of its parameter. \<open>c.Query\<close> of an absent parameter is the empty string.
  \<open>spec_extract\<close> gives the default for the empty string, for every string that is not
  numeric, for \<open>0\<close> and for the numeral of a negative number, and the number itself for the
  decimal numeral of a positive number that Go's \<open>int\<close> holds.
\<close>

theorem GetPaginationParams_tolerant:
  "GetPaginationParams c =
     \<lparr>PaginationParams.Page = spec_extract 1 (Context_Query c ''page''),
      PageSize = spec_extract 10 (Context_Query c ''page_size'')\<rparr>
   \<and> GetSearchParams c =
     \<lparr>Query = Context_Query c ''q'',
      Page = spec_extract 1 (Context_Query c ''page''),
      PageSize = spec_extract 10 (Context_Query c ''page_size'')\<rparr>
   \<and> (map_of (QueryValues c) key = None \<longrightarrow> Context_Query c key = [])
   \<and> spec_extract dflt [] = dflt
   \<and> (\<not> numeric raw \<longrightarrow> spec_extract dflt raw = dflt)
   \<and> spec_extract dflt ''0'' = dflt
   \<and> (int n \<le> 2 ^ 63 \<longrightarrow> spec_extract dflt (CHR ''-'' # decimal n) = dflt)
   \<and> (0 < n \<and> int n < 2 ^ 63 \<longrightarrow> spec_extract dflt (decimal n) = word_of_nat n)"
proof -
  have absent: "map_of (QueryValues c) key = None \<longrightarrow> Context_Query c key = []"
    by (simp add: Context_Query_def)
  have empty: "spec_extract dflt [] = dflt" by (simp add: spec_extract_def)
  have nonnum: "\<not> numeric raw \<longrightarrow> spec_extract dflt raw = dflt"
    using Atoi_not_numeric [of raw] by (auto simp: spec_extract_def)
  have zero: "spec_extract dflt ''0'' = dflt"
    by (simp add: spec_extract_def Atoi_def ParseUint_def is_digit_def digit_val_def)
  have neg: "int n \<le> 2 ^ 63 \<longrightarrow> spec_extract dflt (CHR ''-'' # decimal n) = dflt"
  proof
    assume n: "int n \<le> 2 ^ 63"
    have "sint (- word_of_nat n :: go_int) \<le> 0"
    proof (cases "int n = 2 ^ 63")
      case True
      then have "(word_of_nat n :: go_int) = word_of_int (2 ^ 63)"
        by (metis of_int_of_nat_eq)
      then show ?thesis by simp
    next
      case False
      then have "sint (word_of_int (- int n) :: go_int) = - int n"
        using n by (intro sint_of_int64) simp_all
      then show ?thesis by simp
    qed
    then show "spec_extract dflt (CHR ''-'' # decimal n) = dflt"
      using n by (simp add: spec_extract_def Atoi_minus_decimal word_sle_eq del: decimal.simps)
  qed
  have pos: "0 < n \<and> int n < 2 ^ 63 \<longrightarrow> spec_extract dflt (decimal n) = word_of_nat n"
  proof
    assume n: "0 < n \<and> int n < 2 ^ 63"
    then have "sint (word_of_int (int n) :: go_int) = int n"
      by (intro sint_of_int64) simp_all
    then have "\<not> (word_of_nat n :: go_int) \<le>s 0"
      using n by (simp add: word_sle_eq)
    then show "spec_extract dflt (decimal n) = word_of_nat n"
      using n by (simp add: spec_extract_def Atoi_decimal decimal_not_Nil del: decimal.simps)
  qed
  show ?thesis
    using GetPaginationParams_spec GetSearchParams_spec absent empty nonnum zero neg pos
    by blast
qed

text \<open>
  The request \<open>?page_size=20\<close> of the unit test, a parameter \<open>abc\<close>, and the numerals
  \<open>-7\<close> and \<open>20\<close>.
\<close>

theorem GetPaginationParams_tolerant_witness:
  "map_of (QueryValues (with_page_size ''20'')) ''page'' = None
   \<and> Context_Query (with_page_size ''20'') ''page'' = []
   \<and> GetPaginationParams (with_page_size ''20'') = \<lparr>PaginationParams.Page = 1, PageSize = 20\<rparr>
   \<and> \<not> numeric ''abc'' \<and> spec_extract 10 ''abc'' = 10
   \<and> int 7 \<le> 2 ^ 63 \<and> spec_extract 10 ''-7'' = 10
   \<and> 0 < (20 :: nat) \<and> int 20 < 2 ^ 63 \<and> spec_extract 10 ''20'' = 20"
proof -
  have d: "decimal 20 = ''20''" "decimal 7 = ''7''"
    by code_simp+
  have q: "map_of (QueryValues (with_page_size ''20'')) ''page'' = None"
    "Context_Query (with_page_size ''20'') ''page_size'' = ''20''"
    by (simp_all add: with_page_size_def Context_Query_def)
  have n: "\<not> numeric ''abc''"
    by (simp add: numeric_def unsigned_def is_digit_def)
  show ?thesis
    using GetPaginationParams_tolerant [of "with_page_size ''20''" "''page''" 10 "''abc''" 7]
      GetPaginationParams_tolerant [of "with_page_size ''20''" "''page''" 10 "''abc''" 20]
      GetPaginationParams_tolerant [of "with_page_size ''20''" "''page''" 1 "''abc''" 20]
      d q n
    by simp
qed

section \<open>The list handlers\<close>

lemma scan_rows_accepted:
  "scan_rows [] i rows acc = Inr (foldl go_append acc rows)"
  by (induction rows arbitrary: i acc) (simp_all add: fault_def)

lemma spec_extract_page: "\<not> spec_extract 1 raw <s 1"
  using spec_extract_ge1 [of 1 raw] by (simp add: word_sle_eq word_sless_alt)

lemma spec_extract_page_size: "\<not> spec_extract 10 raw <s 1"
  using spec_extract_ge1 [of 10 raw] by (simp add: word_sle_eq word_sless_alt)

lemma CalculatePagination_no_panic:
  "pageSize \<noteq> 0 \<Longrightarrow> \<exists>pg. CalculatePagination page pageSize total' = Inr pg
     \<and> Pagination.Page pg = page \<and> Pagination.PageSize pg = pageSize"
  by (simp add: CalculatePagination_def go_div_def)

lemma not_less_1_nonzero: "\<not> (w :: go_int) <s 1 \<Longrightarrow> w \<noteq> 0"
  by (auto simp: word_sless_alt)

text \<open>
  Claim C5. The extraction gives a page and a page size of at least 1, for both
  extractors. So no list handler takes its branch for a page below 1, and a handler
  answers \<open>page_size must be between 1 and 100\<close> only for a page size above 100. A handler
  that reaches \<open>CalculatePagination\<close> either answers 200 with the pagination or panics on
  the division: it never panics, and the page and page size of the pagination it answers
  with, which are the arguments of the call, are the extracted ones, at least 1, the page
  size at most 100.
\<close>

theorem handlers_call_CalculatePagination_in_range:
  "1 \<le>s PaginationParams.Page (GetPaginationParams c)
   \<and> 1 \<le>s PaginationParams.PageSize (GetPaginationParams c)
   \<and> 1 \<le>s SearchParams.Page (GetSearchParams c)
   \<and> 1 \<le>s SearchParams.PageSize (GetSearchParams c)
   \<and> (\<forall>p. handlers_GetServices db fs c \<noteq> Panicked p)
   \<and> (\<forall>p. handlers_SearchServices db fs c \<noteq> Panicked p)
   \<and> (\<forall>p. handlers_GetVersions db fs c \<noteq> Panicked p)
   \<and> handlers_GetServices db fs c \<noteq> Response StatusBadRequest (H_error ''page must be greater than 0'')
   \<and> handlers_SearchServices db fs c \<noteq> Response StatusBadRequest (H_error ''page must be greater than 0'')
   \<and> handlers_GetVersions db fs c \<noteq> Response StatusBadRequest (H_error ''page must be greater than 0'')
   \<and> (handlers_GetServices db fs c = Response StatusBadRequest (H_error ''page_size must be between 1 and 100'')
        \<longrightarrow> 100 <s PaginationParams.PageSize (GetPaginationParams c))
   \<and> (handlers_SearchServices db fs c = Response StatusBadRequest (H_error ''page_size must be between 1 and 100'')
        \<longrightarrow> 100 <s SearchParams.PageSize (GetSearchParams c))
   \<and> (handlers_GetVersions db fs c = Response StatusBadRequest (H_error ''page_size must be between 1 and 100'')
        \<longrightarrow> 100 <s PaginationParams.PageSize (GetPaginationParams c))
   \<and> (\<forall>data pg. handlers_GetServices db fs c = Response StatusOK (ServicesPage data pg) \<longrightarrow>
         Pagination.Page pg = PaginationParams.Page (GetPaginationParams c)
         \<and> Pagination.PageSize pg = PaginationParams.PageSize (GetPaginationParams c)
         \<and> 1 \<le>s Pagination.Page pg \<and> 1 \<le>s Pagination.PageSize pg \<and> Pagination.PageSize pg \<le>s 100)
   \<and> (\<forall>data pg. handlers_SearchServices db fs c = Response StatusOK (ServicesPage data pg) \<longrightarrow>
         Pagination.Page pg = SearchParams.Page (GetSearchParams c)
         \<and> Pagination.PageSize pg = SearchParams.PageSize (GetSearchParams c)
         \<and> 1 \<le>s Pagination.Page pg \<and> 1 \<le>s Pagination.PageSize pg \<and> Pagination.PageSize pg \<le>s 100)
   \<and> (\<forall>data pg. handlers_GetVersions db fs c = Response StatusOK (VersionsPage data pg) \<longrightarrow>
         Pagination.Page pg = PaginationParams.Page (GetPaginationParams c)
         \<and> Pagination.PageSize pg = PaginationParams.PageSize (GetPaginationParams c)
         \<and> 1 \<le>s Pagination.Page pg \<and> 1 \<le>s Pagination.PageSize pg \<and> Pagination.PageSize pg \<le>s 100)"
proof -
  define page where "page = spec_extract 1 (Context_Query c ''page'')"
  define size where "size = spec_extract 10 (Context_Query c ''page_size'')"
  have P: "GetPaginationParams c = \<lparr>PaginationParams.Page = page, PageSize = size\<rparr>"
    by (simp add: GetPaginationParams_spec page_def size_def)
  have S: "GetSearchParams c = \<lparr>Query = Context_Query c ''q'', Page = page, PageSize = size\<rparr>"
    by (simp add: GetSearchParams_spec page_def size_def)
  have page: "1 \<le>s page" "\<not> page <s 1"
    using spec_extract_ge1 [of 1] spec_extract_page by (simp_all add: page_def word_sle_eq)
  have size: "1 \<le>s size" "\<not> size <s 1" "size \<noteq> 0"
    using spec_extract_ge1 [of 10] spec_extract_page_size not_less_1_nonzero
    by (simp_all add: size_def word_sle_eq)
  have le: "\<not> 100 <s size \<Longrightarrow> size \<le>s 100"
    by (simp add: word_sle_eq word_sless_alt)
  have cp: "\<exists>pg. CalculatePagination page size t = Inr pg
     \<and> Pagination.Page pg = page \<and> Pagination.PageSize pg = size" for t
    using size(3) by (rule CalculatePagination_no_panic)
  have 1: "(\<forall>p. handlers_GetServices db fs c \<noteq> Panicked p)
      \<and> handlers_GetServices db fs c \<noteq> Response StatusBadRequest (H_error ''page must be greater than 0'')
      \<and> (handlers_GetServices db fs c = Response StatusBadRequest (H_error ''page_size must be between 1 and 100'')
        \<longrightarrow> 100 <s size)
      \<and> (\<forall>data pg. handlers_GetServices db fs c = Response StatusOK (ServicesPage data pg) \<longrightarrow>
         Pagination.Page pg = page \<and> Pagination.PageSize pg = size
         \<and> 1 \<le>s Pagination.Page pg \<and> 1 \<le>s Pagination.PageSize pg \<and> Pagination.PageSize pg \<le>s 100)"
  proof (cases "database_GetServices db fs \<lparr>PaginationParams.Page = page, PageSize = size\<rparr>")
    case (Inl err)
    then show ?thesis
      using page size by (simp add: handlers_GetServices_def P Let_def)
  next
    case (Inr res)
    obtain ss t where res: "res = (ss, t)" by (cases res)
    from cp [of t] obtain pg where pg: "CalculatePagination page size t = Inr pg"
      "Pagination.Page pg = page" "Pagination.PageSize pg = size" by blast
    show ?thesis
      using page size le pg Inr res by (auto simp: handlers_GetServices_def P Let_def)
  qed
  have 2: "(\<forall>p. handlers_SearchServices db fs c \<noteq> Panicked p)
      \<and> handlers_SearchServices db fs c \<noteq> Response StatusBadRequest (H_error ''page must be greater than 0'')
      \<and> (handlers_SearchServices db fs c = Response StatusBadRequest (H_error ''page_size must be between 1 and 100'')
        \<longrightarrow> 100 <s size)
      \<and> (\<forall>data pg. handlers_SearchServices db fs c = Response StatusOK (ServicesPage data pg) \<longrightarrow>
         Pagination.Page pg = page \<and> Pagination.PageSize pg = size
         \<and> 1 \<le>s Pagination.Page pg \<and> 1 \<le>s Pagination.PageSize pg \<and> Pagination.PageSize pg \<le>s 100)"
  proof (cases "database_SearchServices db fs \<lparr>Query = Context_Query c ''q'', Page = page, PageSize = size\<rparr>")
    case (Inl err)
    then show ?thesis
      using page size by (simp add: handlers_SearchServices_def S Let_def)
  next
    case (Inr res)
    obtain ss t where res: "res = (ss, t)" by (cases res)
    from cp [of t] obtain pg where pg: "CalculatePagination page size t = Inr pg"
      "Pagination.Page pg = page" "Pagination.PageSize pg = size" by blast
    show ?thesis
      using page size le pg Inr res by (auto simp: handlers_SearchServices_def S Let_def)
  qed
  have 3: "(\<forall>p. handlers_GetVersions db fs c \<noteq> Panicked p)
      \<and> handlers_GetVersions db fs c \<noteq> Response StatusBadRequest (H_error ''page must be greater than 0'')
      \<and> (handlers_GetVersions db fs c = Response StatusBadRequest (H_error ''page_size must be between 1 and 100'')
        \<longrightarrow> 100 <s size)
      \<and> (\<forall>data pg. handlers_GetVersions db fs c = Response StatusOK (VersionsPage data pg) \<longrightarrow>
         Pagination.Page pg = page \<and> Pagination.PageSize pg = size
         \<and> 1 \<le>s Pagination.Page pg \<and> 1 \<le>s Pagination.PageSize pg \<and> Pagination.PageSize pg \<le>s 100)"
  proof (cases "database_GetVersions db fs (Context_Param c ''id'') \<lparr>PaginationParams.Page = page, PageSize = size\<rparr>")
    case (Inl err)
    then show ?thesis
      using page size by (simp add: handlers_GetVersions_def P Let_def)
  next
    case (Inr res)
    obtain ss t where res: "res = (ss, t)" by (cases res)
    from cp [of t] obtain pg where pg: "CalculatePagination page size t = Inr pg"
      "Pagination.Page pg = page" "Pagination.PageSize pg = size" by blast
    show ?thesis
      using page size le pg Inr res by (auto simp: handlers_GetVersions_def P Let_def)
  qed
  show ?thesis
    using 1 2 3 page(1) size(1) unfolding P S by (simp; blast)
qed

text \<open>
  On the seeded store: a page size of 101 is rejected for being above 100, and the list
  of services, a search and the versions of \<open>service-1\<close> reach the pagination with page 1
  and page size 10.
\<close>

theorem handlers_call_CalculatePagination_in_range_witness:
  "handlers_GetServices seed_db [] (with_page_size ''101'') =
     Response StatusBadRequest (H_error ''page_size must be between 1 and 100'')
   \<and> 100 <s PaginationParams.PageSize (GetPaginationParams (with_page_size ''101''))
   \<and> handlers_GetServices seed_db [] (with_page_size ''0'') =
     Response StatusOK (ServicesPage (JArray (rev seed_services))
       \<lparr>Pagination.Page = 1, PageSize = 10, Total = 3, TotalPages = 1,
        HasNext = False, HasPrev = False\<rparr>)
   \<and> handlers_SearchServices seed_db [] (search_for ''notification'') =
     Response StatusOK (ServicesPage (JArray [seed_services ! 2])
       \<lparr>Pagination.Page = 1, PageSize = 10, Total = 1, TotalPages = 1,
        HasNext = False, HasPrev = False\<rparr>)
   \<and> handlers_GetVersions seed_db [] (with_page_size ''0'') =
     Response StatusOK (VersionsPage (JArray [seed_versions ! 1, seed_versions ! 0])
       \<lparr>Pagination.Page = 1, PageSize = 10, Total = 2, TotalPages = 1,
        HasNext = False, HasPrev = False\<rparr>)
   \<and> 1 \<le>s (1 :: go_int) \<and> 1 \<le>s (10 :: go_int) \<and> (10 :: go_int) \<le>s 100"
proof -
  have a: "handlers_GetServices seed_db [] (with_page_size ''101'') =
     Response StatusBadRequest (H_error ''page_size must be between 1 and 100'')"
    by (simp add: handlers_GetServices_def GetPaginationParams_def with_page_size_def
        Context_Query_def Atoi_def ParseUint_def is_digit_def digit_val_def word_sless_alt)
  have b: "handlers_GetServices seed_db [] (with_page_size ''0'') =
     Response StatusOK (ServicesPage (JArray (rev seed_services))
       \<lparr>Pagination.Page = 1, PageSize = 10, Total = 3, TotalPages = 1,
        HasNext = False, HasPrev = False\<rparr>)"
    by (simp add: handlers_GetServices_def GetPaginationParams_def with_page_size_def
        Context_Query_def Atoi_def ParseUint_def is_digit_def digit_val_def word_sless_alt
        database_GetServices_def fault_def seed_db_def seed_services_def limit_offset_def
        CalculatePagination_def go_div_def signed_divide_int_def)
  have c: "handlers_SearchServices seed_db [] (search_for ''notification'') =
     Response StatusOK (ServicesPage (JArray [seed_services ! 2])
       \<lparr>Pagination.Page = 1, PageSize = 10, Total = 1, TotalPages = 1,
        HasNext = False, HasPrev = False\<rparr>)"
    by (simp add: handlers_SearchServices_def GetSearchParams_def search_for_def
        Context_Query_def word_sless_alt matching_def seed_relevance_def
        database_SearchServices_def fault_def seed_db_def seed_services_def limit_offset_def
        CalculatePagination_def go_div_def signed_divide_int_def)
  have d: "handlers_GetVersions seed_db [] (with_page_size ''0'') =
     Response StatusOK (VersionsPage (JArray [seed_versions ! 1, seed_versions ! 0])
       \<lparr>Pagination.Page = 1, PageSize = 10, Total = 2, TotalPages = 1,
        HasNext = False, HasPrev = False\<rparr>)"
    by (simp add: handlers_GetVersions_def GetPaginationParams_def with_page_size_def
        Context_Query_def Context_Param_def Atoi_def ParseUint_def is_digit_def digit_val_def
        word_sless_alt database_GetVersions_def fault_def seed_db_def seed_versions_def
        limit_offset_def CalculatePagination_def go_div_def signed_divide_int_def Let_def)
  have e: "100 <s PaginationParams.PageSize (GetPaginationParams (with_page_size ''101''))"
    using a handlers_call_CalculatePagination_in_range [of "with_page_size ''101''" seed_db "[]"]
    by blast
  have f: "1 \<le>s (1 :: go_int) \<and> 1 \<le>s (10 :: go_int) \<and> (10 :: go_int) \<le>s 100"
    by (simp add: word_sle_eq)
  show ?thesis
    using a b c d e f by blast
qed

lemma spec_extract_101: "spec_extract 10 ''101'' = 101"
  by (simp add: spec_extract_def Atoi_def ParseUint_def is_digit_def digit_val_def word_sle_eq)

lemma spec_extract_0: "spec_extract 10 ''0'' = 10"
  by (simp add: spec_extract_def Atoi_def ParseUint_def is_digit_def digit_val_def word_sle_eq)

lemma database_GetServices_accepted: "\<exists>res. database_GetServices db [] params = Inr res"
  by (simp add: database_GetServices_def fault_def Let_def scan_rows_accepted)

lemma database_SearchServices_accepted: "\<exists>res. database_SearchServices db [] params = Inr res"
  by (simp add: database_SearchServices_def fault_def Let_def scan_rows_accepted)

lemma database_GetVersions_accepted: "\<exists>res. database_GetVersions db [] i params = Inr res"
  by (simp add: database_GetVersions_def fault_def Let_def scan_rows_accepted)

lemma responds_GetServices:
  assumes "\<not> 100 <s spec_extract 10 (Context_Query c ''page_size'')"
  shows "\<not> responds (handlers_GetServices db fs c) StatusBadRequest"
    and "responds (handlers_GetServices db [] c) StatusOK"
proof -
  define page where "page = spec_extract 1 (Context_Query c ''page'')"
  define size where "size = spec_extract 10 (Context_Query c ''page_size'')"
  have P: "GetPaginationParams c = \<lparr>PaginationParams.Page = page, PageSize = size\<rparr>"
    by (simp add: GetPaginationParams_spec page_def size_def)
  have g: "\<not> page <s 1" "\<not> size <s 1" "size \<noteq> 0" "\<not> 100 <s size"
    using spec_extract_page spec_extract_page_size not_less_1_nonzero assms
    by (simp_all add: page_def size_def)
  have cp: "\<exists>pg. CalculatePagination page size t = Inr pg" for t
    using CalculatePagination_no_panic [OF g(3)] by blast
  show "\<not> responds (handlers_GetServices db fs c) StatusBadRequest"
  proof (cases "database_GetServices db fs \<lparr>PaginationParams.Page = page, PageSize = size\<rparr>")
    case (Inl err)
    then show ?thesis using g by (simp add: handlers_GetServices_def P)
  next
    case (Inr res)
    obtain ss t where res: "res = (ss, t)" by (cases res)
    from cp [of t] obtain pg where "CalculatePagination page size t = Inr pg" ..
    then show ?thesis using g Inr res by (simp add: handlers_GetServices_def P)
  qed
  obtain ss t where "database_GetServices db [] \<lparr>PaginationParams.Page = page, PageSize = size\<rparr> = Inr (ss, t)"
    using database_GetServices_accepted by (metis surj_pair)
  moreover from cp [of t] obtain pg where "CalculatePagination page size t = Inr pg" ..
  ultimately show "responds (handlers_GetServices db [] c) StatusOK"
    using g by (simp add: handlers_GetServices_def P)
qed

lemma responds_GetVersions:
  assumes "\<not> 100 <s spec_extract 10 (Context_Query c ''page_size'')"
  shows "\<not> responds (handlers_GetVersions db fs c) StatusBadRequest"
    and "responds (handlers_GetVersions db [] c) StatusOK"
proof -
  define page where "page = spec_extract 1 (Context_Query c ''page'')"
  define size where "size = spec_extract 10 (Context_Query c ''page_size'')"
  have P: "GetPaginationParams c = \<lparr>PaginationParams.Page = page, PageSize = size\<rparr>"
    by (simp add: GetPaginationParams_spec page_def size_def)
  have g: "\<not> page <s 1" "\<not> size <s 1" "size \<noteq> 0" "\<not> 100 <s size"
    using spec_extract_page spec_extract_page_size not_less_1_nonzero assms
    by (simp_all add: page_def size_def)
  have cp: "\<exists>pg. CalculatePagination page size t = Inr pg" for t
    using CalculatePagination_no_panic [OF g(3)] by blast
  show "\<not> responds (handlers_GetVersions db fs c) StatusBadRequest"
  proof (cases "database_GetVersions db fs (Context_Param c ''id'') \<lparr>PaginationParams.Page = page, PageSize = size\<rparr>")
    case (Inl err)
    then show ?thesis using g by (simp add: handlers_GetVersions_def P)
  next
    case (Inr res)
    obtain ss t where res: "res = (ss, t)" by (cases res)
    from cp [of t] obtain pg where "CalculatePagination page size t = Inr pg" ..
    then show ?thesis using g Inr res by (simp add: handlers_GetVersions_def P)
  qed
  obtain ss t where "database_GetVersions db [] (Context_Param c ''id'') \<lparr>PaginationParams.Page = page, PageSize = size\<rparr> = Inr (ss, t)"
    using database_GetVersions_accepted by (metis surj_pair)
  moreover from cp [of t] obtain pg where "CalculatePagination page size t = Inr pg" ..
  ultimately show "responds (handlers_GetVersions db [] c) StatusOK"
    using g by (simp add: handlers_GetVersions_def P)
qed

lemma responds_SearchServices:
  assumes "\<not> 100 <s spec_extract 10 (Context_Query c ''page_size'')"
  shows "responds (handlers_SearchServices db fs c) StatusBadRequest \<longleftrightarrow> Context_Query c ''q'' = []"
    and "Context_Query c ''q'' \<noteq> [] \<Longrightarrow> responds (handlers_SearchServices db [] c) StatusOK"
proof -
  define page where "page = spec_extract 1 (Context_Query c ''page'')"
  define size where "size = spec_extract 10 (Context_Query c ''page_size'')"
  define q where "q = Context_Query c ''q''"
  have S: "GetSearchParams c = \<lparr>Query = q, Page = page, PageSize = size\<rparr>"
    by (simp add: GetSearchParams_spec page_def size_def q_def)
  have g: "\<not> page <s 1" "\<not> size <s 1" "size \<noteq> 0" "\<not> 100 <s size"
    using spec_extract_page spec_extract_page_size not_less_1_nonzero assms
    by (simp_all add: page_def size_def)
  have cp: "\<exists>pg. CalculatePagination page size t = Inr pg" for t
    using CalculatePagination_no_panic [OF g(3)] by blast
  show "responds (handlers_SearchServices db fs c) StatusBadRequest \<longleftrightarrow> Context_Query c ''q'' = []"
  proof (cases "database_SearchServices db fs \<lparr>Query = q, Page = page, PageSize = size\<rparr>")
    case (Inl err)
    then show ?thesis using g by (simp add: handlers_SearchServices_def S q_def [symmetric] Let_def)
  next
    case (Inr res)
    obtain ss t where res: "res = (ss, t)" by (cases res)
    from cp [of t] obtain pg where "CalculatePagination page size t = Inr pg" ..
    then show ?thesis using g Inr res by (simp add: handlers_SearchServices_def S q_def [symmetric] Let_def)
  qed
  assume "Context_Query c ''q'' \<noteq> []"
  then have q: "q \<noteq> []" by (simp add: q_def)
  obtain ss t where "database_SearchServices db [] \<lparr>Query = q, Page = page, PageSize = size\<rparr> = Inr (ss, t)"
    using database_SearchServices_accepted by (metis surj_pair)
  moreover from cp [of t] obtain pg where "CalculatePagination page size t = Inr pg" ..
  ultimately show "responds (handlers_SearchServices db [] c) StatusOK"
    using g q by (simp add: handlers_SearchServices_def S Let_def)
qed

text \<open>
  Claim C3, as amended. On each list endpoint a \<open>page_size\<close> of \<open>101\<close> is answered with
  400. A \<open>page_size\<close> of \<open>0\<close> is not: the extraction replaces it by the default 10, the
  list of services and the list of versions never answer 400 to it and answer 200 when
  the store accepts their calls, and the search answers 400 exactly when \<open>q\<close> is empty,
  and 200 for another \<open>q\<close> when the store accepts its calls.
\<close>

theorem page_size_101_rejected_0_defaulted:
  "(Context_Query c ''page_size'' = ''101'' \<longrightarrow>
      handlers_GetServices db fs c =
        Response StatusBadRequest (H_error ''page_size must be between 1 and 100'')
      \<and> responds (handlers_SearchServices db fs c) StatusBadRequest
      \<and> handlers_GetVersions db fs c =
        Response StatusBadRequest (H_error ''page_size must be between 1 and 100''))
   \<and> (Context_Query c ''page_size'' = ''0'' \<longrightarrow>
      PaginationParams.PageSize (GetPaginationParams c) = 10
      \<and> SearchParams.PageSize (GetSearchParams c) = 10
      \<and> \<not> responds (handlers_GetServices db fs c) StatusBadRequest
      \<and> \<not> responds (handlers_GetVersions db fs c) StatusBadRequest
      \<and> (responds (handlers_SearchServices db fs c) StatusBadRequest \<longleftrightarrow> Context_Query c ''q'' = [])
      \<and> responds (handlers_GetServices db [] c) StatusOK
      \<and> responds (handlers_GetVersions db [] c) StatusOK
      \<and> (Context_Query c ''q'' \<noteq> [] \<longrightarrow> responds (handlers_SearchServices db [] c) StatusOK))"
proof (intro conjI impI)
  assume a: "Context_Query c ''page_size'' = ''101''"
  have big: "100 <s (101 :: go_int)" by simp
  have page: "\<not> spec_extract 1 (Context_Query c ''page'') <s 1" by (rule spec_extract_page)
  show "handlers_GetServices db fs c =
        Response StatusBadRequest (H_error ''page_size must be between 1 and 100'')"
    using page big by (simp add: handlers_GetServices_def GetPaginationParams_spec a spec_extract_101)
  show "handlers_GetVersions db fs c =
        Response StatusBadRequest (H_error ''page_size must be between 1 and 100'')"
    using page big by (simp add: handlers_GetVersions_def GetPaginationParams_spec a spec_extract_101)
  show "responds (handlers_SearchServices db fs c) StatusBadRequest"
    using page big by (simp add: handlers_SearchServices_def GetSearchParams_spec a spec_extract_101 Let_def)
next
  assume a: "Context_Query c ''page_size'' = ''0''"
  then have le: "\<not> 100 <s spec_extract 10 (Context_Query c ''page_size'')"
    by (simp add: spec_extract_0)
  show "PaginationParams.PageSize (GetPaginationParams c) = 10"
    by (simp add: GetPaginationParams_spec a spec_extract_0)
  show "SearchParams.PageSize (GetSearchParams c) = 10"
    by (simp add: GetSearchParams_spec a spec_extract_0)
  show "\<not> responds (handlers_GetServices db fs c) StatusBadRequest"
    using le by (rule responds_GetServices)
  show "\<not> responds (handlers_GetVersions db fs c) StatusBadRequest"
    using le by (rule responds_GetVersions)
  show "responds (handlers_SearchServices db fs c) StatusBadRequest \<longleftrightarrow> Context_Query c ''q'' = []"
    using le by (rule responds_SearchServices)
  show "responds (handlers_GetServices db [] c) StatusOK"
    using le by (rule responds_GetServices)
  show "responds (handlers_GetVersions db [] c) StatusOK"
    using le by (rule responds_GetVersions)
  assume "Context_Query c ''q'' \<noteq> []"
  with le show "responds (handlers_SearchServices db [] c) StatusOK"
    by (rule responds_SearchServices)
qed

text \<open>The requests \<open>?page_size=101\<close> and \<open>?page_size=0\<close> on the seeded store.\<close>

theorem page_size_101_rejected_0_defaulted_witness:
  "Context_Query (with_page_size ''101'') ''page_size'' = ''101''
   \<and> handlers_GetServices seed_db [] (with_page_size ''101'') =
        Response StatusBadRequest (H_error ''page_size must be between 1 and 100'')
   \<and> handlers_GetVersions seed_db [] (with_page_size ''101'') =
        Response StatusBadRequest (H_error ''page_size must be between 1 and 100'')
   \<and> responds (handlers_SearchServices seed_db [] (with_page_size ''101'')) StatusBadRequest
   \<and> Context_Query (with_page_size ''0'') ''page_size'' = ''0''
   \<and> PaginationParams.PageSize (GetPaginationParams (with_page_size ''0'')) = 10
   \<and> responds (handlers_GetServices seed_db [] (with_page_size ''0'')) StatusOK
   \<and> responds (handlers_GetVersions seed_db [] (with_page_size ''0'')) StatusOK
   \<and> Context_Query (with_page_size ''0'') ''q'' = []
   \<and> responds (handlers_SearchServices seed_db [] (with_page_size ''0'')) StatusBadRequest"
proof -
  have q: "Context_Query (with_page_size ''101'') ''page_size'' = ''101''"
    "Context_Query (with_page_size ''0'') ''page_size'' = ''0''"
    "Context_Query (with_page_size ''0'') ''q'' = []"
    by (simp_all add: with_page_size_def Context_Query_def)
  show ?thesis
    using q
      page_size_101_rejected_0_defaulted [of "with_page_size ''101''" seed_db "[]"]
      page_size_101_rejected_0_defaulted [of "with_page_size ''0''" seed_db "[]"]
    by blast
qed

text \<open>
  Claim C3 as stated fails for \<open>page_size=0\<close>: on the seeded store the list of services
  answers 200, with the page size 10.
\<close>

theorem page_size_0_counterexample:
  "Context_Query (with_page_size ''0'') ''page_size'' = ''0''
   \<and> handlers_GetServices seed_db [] (with_page_size ''0'') =
     Response StatusOK (ServicesPage (JArray (rev seed_services))
       \<lparr>Pagination.Page = 1, PageSize = 10, Total = 3, TotalPages = 1,
        HasNext = False, HasPrev = False\<rparr>)"
  by (simp add: handlers_GetServices_def GetPaginationParams_def with_page_size_def
      Context_Query_def Atoi_def ParseUint_def is_digit_def digit_val_def word_sless_alt
      database_GetServices_def fault_def seed_db_def seed_services_def limit_offset_def
      CalculatePagination_def go_div_def signed_divide_int_def)

section \<open>Searching\<close>

lemma SearchServices_without_query:
  "Context_Query c ''q'' = [] \<Longrightarrow>
     handlers_SearchServices db fs c =
       Response StatusBadRequest (H_error ''search query 'q' is required'')"
  by (simp add: handlers_SearchServices_def GetSearchParams_spec Let_def)

lemma CalculatePagination_total_0:
  assumes "1 \<le>s pageSize"
  shows "CalculatePagination page pageSize 0 =
    Inr \<lparr>Pagination.Page = page, PageSize = pageSize, Total = 0, TotalPages = 0,
         HasNext = (page <s 0), HasPrev = (1 <s page)\<rparr>"
proof -
  have p: "1 \<le> sint pageSize" using assms by (simp add: word_sle_eq)
  have "sint (0 :: go_int) + sint pageSize - 1 < 2 ^ 63"
    using sint_lt [of pageSize] by simp
  with p have "sint (0 + pageSize - 1) = sint (0 :: go_int) + sint pageSize - 1"
    by (intro sint_ceiling_sum) simp_all
  then have s: "sint (pageSize - 1) = sint pageSize - 1" by simp
  have "sint (pageSize - 1) sdiv sint pageSize = 0"
    using p by (simp add: s sdiv_nonneg)
  moreover have "pageSize \<noteq> 0" using p by auto
  ultimately show ?thesis
    by (simp add: CalculatePagination_def go_div_def)
qed

lemma SearchServices_no_match_general:
  assumes q: "Context_Query c ''q'' \<noteq> []"
    and none: "matching db (Context_Query c ''q'') = []"
    and size: "\<not> 100 <s SearchParams.PageSize (GetSearchParams c)"
    and ok: "fault fs 0 = None" "fault fs 1 = None"
  shows "handlers_SearchServices db fs c =
     Response StatusOK (ServicesPage JNull
       \<lparr>Pagination.Page = SearchParams.Page (GetSearchParams c),
        PageSize = SearchParams.PageSize (GetSearchParams c),
        Total = 0, TotalPages = 0, HasNext = False,
        HasPrev = (1 <s SearchParams.Page (GetSearchParams c))\<rparr>)"
proof -
  define page where "page = spec_extract 1 (Context_Query c ''page'')"
  define size where "size = spec_extract 10 (Context_Query c ''page_size'')"
  define q where "q = Context_Query c ''q''"
  have S: "GetSearchParams c = \<lparr>Query = q, Page = page, PageSize = size\<rparr>"
    by (simp add: GetSearchParams_spec page_def size_def q_def)
  have g: "\<not> page <s 1" "\<not> size <s 1" "\<not> 100 <s size" "1 \<le>s page" "1 \<le>s size"
    using spec_extract_page spec_extract_page_size assms(3) spec_extract_ge1 [of 1] spec_extract_ge1 [of 10]
    by (simp_all add: page_def size_def S word_sle_eq)
  have "\<not> page <s 0" using g(4) by (simp add: word_sle_eq word_sless_alt)
  then have tp: "CalculatePagination page size 0 =
      Inr \<lparr>Pagination.Page = page, PageSize = size, Total = 0, TotalPages = 0,
           HasNext = False, HasPrev = (1 <s page)\<rparr>"
    using CalculatePagination_total_0 [OF g(5), of page] by simp
  have db: "database_SearchServices db fs \<lparr>Query = q, Page = page, PageSize = size\<rparr> = Inr (NilSlice, 0)"
    using ok none by (simp add: database_SearchServices_def Let_def q_def limit_offset_def)
  show ?thesis
    using q g tp db by (simp add: handlers_SearchServices_def S Let_def q_def [symmetric])
qed

text \<open>
  Claim C7. Without \<open>q\<close>, or with an empty one, the search answers 400 whatever the
  store and the outcomes of its calls are: it makes none. For a \<open>q\<close> that matches no
  service it answers 200 with a total of 0, but the accessor has appended nothing to its
  \<open>var services []models.Service\<close>, the slice is nil, and the \<open>data\<close> of the answer is
  \<open>null\<close>, not an empty array. The integration test \<open>search with no results\<close> reads
  \<open>data\<close> as an array of length 0. Below, that search on the seeded store.
\<close>

theorem SearchServices_no_match_null:
  "Context_Query (search_for ''nonexistent'') ''q'' = ''nonexistent''
   \<and> matching seed_db ''nonexistent'' = []
   \<and> handlers_SearchServices seed_db [] (search_for ''nonexistent'') =
     Response StatusOK (ServicesPage JNull
       \<lparr>Pagination.Page = 1, PageSize = 10, Total = 0, TotalPages = 0,
        HasNext = False, HasPrev = False\<rparr>)
   \<and> marshal_slice (NilSlice :: Service slice) \<noteq> JArray []"
  by (simp add: handlers_SearchServices_def GetSearchParams_def search_for_def
      Context_Query_def word_sless_alt matching_def seed_relevance_def
      database_SearchServices_def fault_def seed_db_def seed_services_def limit_offset_def
      CalculatePagination_def go_div_def signed_divide_int_def Let_def)

section \<open>Creating, fetching, updating and deleting a service\<close>

lemma filter_fresh_Nil:
  "(\<forall>row \<in> set rows. Service.ID row \<noteq> i) \<Longrightarrow> filter (\<lambda>s. Service.ID s = i) rows = []"
  by (induction rows) simp_all

text \<open>
  Claim C8, as amended. A service is created with an id that no row of the table has (a
  row with the id would make the store reject the \<open>INSERT\<close> by the primary key), and the
  store accepts the \<open>INSERT\<close> and, at some later time, the \<open>SELECT\<close> of the fetch by the
  id of the creation response. The creation response is the bound body with the new id.
  The fetched entity has the name, the slug and the description of the creation
  response and its id; its timestamps are the store's time of the \<open>INSERT\<close>, and they
  and the id are not empty when the store's time and the generated id are not. Its
  \<open>versions_count\<close> is 0, the default of the column, which is the count of the creation
  response exactly when the body posted a count of 0 or none.
\<close>

theorem CreateService_then_GetService:
  assumes insert: "fault fs 0 = None" and select: "fault gs 0 = None"
    and fresh: "\<forall>row \<in> set (services db). Service.ID row \<noteq> uuid"
    and path: "Context_Param c ''id'' = uuid"
    and present: "uuid \<noteq> []" "now db \<noteq> []"
  shows "\<exists>db' fetched.
    handlers_CreateService db fs uuid (Inr service) =
      (Response StatusCreated (ServiceJSON (service\<lparr>Service.ID := uuid\<rparr>)), db')
    \<and> handlers_GetService (db'\<lparr>now := later\<rparr>) gs c = Response StatusOK (ServiceJSON fetched)
    \<and> Name fetched = Name service
    \<and> Slug fetched = Slug service
    \<and> Description fetched = Description service
    \<and> VersionsCount fetched = 0
    \<and> (VersionsCount fetched = VersionsCount (service\<lparr>Service.ID := uuid\<rparr>)
         \<longleftrightarrow> VersionsCount service = 0)
    \<and> Service.ID fetched = uuid \<and> Service.ID fetched \<noteq> []
    \<and> Service.CreatedAt fetched = now db \<and> Service.CreatedAt fetched \<noteq> []
    \<and> UpdatedAt fetched = now db \<and> UpdatedAt fetched \<noteq> []"
  using assms
  by (simp add: handlers_CreateService_def database_CreateService_def handlers_GetService_def
      database_GetServiceByID_def Let_def filter_fresh_Nil)

text \<open>The valid service of the integration test, created on the seeded store and fetched later.\<close>

theorem CreateService_then_GetService_witness:
  "fault [] 0 = None
   \<and> list_all (\<lambda>row. Service.ID row \<noteq> ''s-uuid'') (services seed_db)
   \<and> Context_Param (at_id ''s-uuid'') ''id'' = ''s-uuid''
   \<and> ''s-uuid'' \<noteq> [] \<and> now seed_db \<noteq> []
   \<and> fst (handlers_CreateService seed_db [] ''s-uuid'' (Inr new_service)) =
       Response StatusCreated (ServiceJSON (new_service\<lparr>Service.ID := ''s-uuid''\<rparr>))
   \<and> handlers_GetService
         ((snd (handlers_CreateService seed_db [] ''s-uuid'' (Inr new_service)))\<lparr>now := ''2024-03-01T00:00:00Z''\<rparr>)
         [] (at_id ''s-uuid'') =
       Response StatusOK
         (ServiceJSON \<lparr>Service.ID = ''s-uuid'', Name = ''New Test Service'', Slug = ''new-test-service'',
            Description = ''A new test service'', CreatedAt = ''2024-02-01T00:00:00Z'',
            UpdatedAt = ''2024-02-01T00:00:00Z'', VersionsCount = 0\<rparr>)"
proof -
  have f: "fault [] 0 = None" by (simp add: fault_def)
  have fresh: "\<forall>row \<in> set (services seed_db). Service.ID row \<noteq> ''s-uuid''"
    by (simp add: seed_db_def seed_services_def)
  have path: "Context_Param (at_id ''s-uuid'') ''id'' = ''s-uuid''"
    by (simp add: at_id_def Context_Param_def)
  have present: "''s-uuid'' \<noteq> []" "now seed_db \<noteq> []"
    by (simp_all add: seed_db_def)
  from CreateService_then_GetService [OF f f fresh path present, of new_service "''2024-03-01T00:00:00Z''"]
  obtain db' fetched where
    r: "handlers_CreateService seed_db [] ''s-uuid'' (Inr new_service) =
      (Response StatusCreated (ServiceJSON (new_service\<lparr>Service.ID := ''s-uuid''\<rparr>)), db')"
    and g: "handlers_GetService (db'\<lparr>now := ''2024-03-01T00:00:00Z''\<rparr>) [] (at_id ''s-uuid'') =
      Response StatusOK (ServiceJSON fetched)"
    and v: "Name fetched = Name new_service" "Slug fetched = Slug new_service"
      "Description fetched = Description new_service" "VersionsCount fetched = 0"
      "Service.ID fetched = ''s-uuid''" "Service.CreatedAt fetched = now seed_db"
      "UpdatedAt fetched = now seed_db"
    by blast
  have "fetched = \<lparr>Service.ID = ''s-uuid'', Name = ''New Test Service'', Slug = ''new-test-service'',
            Description = ''A new test service'', CreatedAt = ''2024-02-01T00:00:00Z'',
            UpdatedAt = ''2024-02-01T00:00:00Z'', VersionsCount = 0\<rparr>"
    using v by (cases fetched) (simp add: new_service_def seed_db_def)
  with r g f fresh path present show ?thesis
    by (simp add: list_all_iff)
qed

text \<open>
  Claim C8 as stated fails for a body that posts a count: the creation response echoes
  the 5 of the body, the fetched entity has the 0 of the column's default.
\<close>

theorem CreateService_versions_count_counterexample:
  "fst (handlers_CreateService seed_db [] ''s-uuid'' (Inr counted_service)) =
     Response StatusCreated
       (ServiceJSON \<lparr>Service.ID = ''s-uuid'', Name = ''Counted'', Slug = ''counted'',
          Description = ''Posted with a count'', CreatedAt = [], UpdatedAt = [],
          VersionsCount = 5\<rparr>)
   \<and> handlers_GetService (snd (handlers_CreateService seed_db [] ''s-uuid'' (Inr counted_service)))
        [] (at_id ''s-uuid'') =
     Response StatusOK
       (ServiceJSON \<lparr>Service.ID = ''s-uuid'', Name = ''Counted'', Slug = ''counted'',
          Description = ''Posted with a count'', CreatedAt = ''2024-02-01T00:00:00Z'',
          UpdatedAt = ''2024-02-01T00:00:00Z'', VersionsCount = 0\<rparr>)"
  by (simp add: handlers_CreateService_def database_CreateService_def handlers_GetService_def
      database_GetServiceByID_def counted_service_def at_id_def Context_Param_def
      fault_def seed_db_def seed_services_def Let_def)

lemma changed_rows_pos:
  "\<exists>row \<in> set rows. P row \<Longrightarrow> int (length (filter P rows)) \<noteq> 0"
  by (induction rows) auto

lemma update_rows_eq:
  "map (\<lambda>row. if Service.ID row = i \<and> changes service row
               then row\<lparr>Name := Name service, Slug := Slug service,
                        Description := Description service, UpdatedAt := t\<rparr>
               else row) rows =
   map (\<lambda>row. if Service.ID row = i
               then row\<lparr>Name := Name service, Slug := Slug service,
                        Description := Description service,
                        UpdatedAt := (if changes service row then t else UpdatedAt row)\<rparr>
               else row) rows"
  by (rule map_cong) (auto simp: changes_def)

text \<open>
  Claim C9. For a body that binds and an \<open>UPDATE\<close> that the store accepts, every row
  with the id of the path has the name, the slug and the description of the body
  afterwards, whatever they were and whatever the body holds (a field the body leaves
  out is bound empty and replaces the column); the row keeps its id, its creation time
  and its count, and no other row and no version changes. A 200 answer carries the
  body with the id of the path in place of its own, and the answer is that when the
  count of affected rows is read and a row with the id counts: any such row on a
  connection that reports the rows found, a row that differs from the body in one of
  the three columns on a connection that reports the rows changed.
\<close>

theorem UpdateService_replaces:
  assumes "fault fs 0 = None"
  shows "\<exists>r db'.
    handlers_UpdateService db fs c (Inr service) = (r, db')
    \<and> services db' =
        map (\<lambda>row. if Service.ID row = Context_Param c ''id''
                    then row\<lparr>Name := Name service, Slug := Slug service,
                             Description := Description service,
                             UpdatedAt := (if changes service row then now db else UpdatedAt row)\<rparr>
                    else row)
          (services db)
    \<and> versions db' = versions db
    \<and> (\<forall>body. r = Response StatusOK body \<longrightarrow>
          body = ServiceJSON (service\<lparr>Service.ID := Context_Param c ''id''\<rparr>))
    \<and> (fault fs 1 = None
        \<and> (\<exists>row \<in> set (services db). Service.ID row = Context_Param c ''id''
              \<and> (found_rows db \<or> changes service row))
        \<longrightarrow> r = Response StatusOK (ServiceJSON (service\<lparr>Service.ID := Context_Param c ''id''\<rparr>)))"
proof -
  define i where "i = Context_Param c ''id''"
  show ?thesis
  proof (cases "fault fs 1")
    case None
    show ?thesis
      using assms None
        changed_rows_pos [of "services db"
          "\<lambda>row. Service.ID row = i \<and> (found_rows db \<or> changes service row)"]
      by (auto simp: handlers_UpdateService_def database_UpdateService_def Let_def
          update_rows_eq i_def [symmetric])
  next
    case (Some err)
    show ?thesis
      using assms Some
      by (auto simp: handlers_UpdateService_def database_UpdateService_def Let_def
          update_rows_eq i_def [symmetric])
  qed
qed

text \<open>
  Renaming \<open>service-1\<close> on the seeded store with a body that names \<open>service-2\<close> as its id
  and leaves the description out.
\<close>

theorem UpdateService_replaces_witness:
  "fault [] 0 = None \<and> fault [] 1 = None
   \<and> list_ex (\<lambda>row. Service.ID row = Context_Param (at_id ''service-1'') ''id''
          \<and> (found_rows seed_db \<or> changes renamed_service_1 row)) (services seed_db)
   \<and> handlers_UpdateService seed_db [] (at_id ''service-1'') (Inr renamed_service_1) =
     (Response StatusOK
        (ServiceJSON \<lparr>Service.ID = ''service-1'', Name = ''Renamed'', Slug = ''renamed'',
           Description = [], CreatedAt = [], UpdatedAt = [], VersionsCount = 0\<rparr>),
      seed_db\<lparr>services :=
        [\<lparr>Service.ID = ''service-1'', Name = ''Renamed'', Slug = ''renamed'',
          Description = [], CreatedAt = ''2024-01-01T00:00:00Z'',
          UpdatedAt = ''2024-02-01T00:00:00Z'', VersionsCount = 2\<rparr>,
         seed_services ! 1, seed_services ! 2]\<rparr>)"
proof -
  have f: "fault [] 0 = None" "fault [] 1 = None" by (simp_all add: fault_def)
  have ex: "\<exists>row \<in> set (services seed_db).
      Service.ID row = Context_Param (at_id ''service-1'') ''id''
      \<and> (found_rows seed_db \<or> changes renamed_service_1 row)"
    by (simp add: seed_db_def seed_services_def at_id_def Context_Param_def changes_def
        renamed_service_1_def)
  from UpdateService_replaces [OF f(1), of seed_db "at_id ''service-1''" renamed_service_1] f(2) ex
  obtain db' where
    r: "handlers_UpdateService seed_db [] (at_id ''service-1'') (Inr renamed_service_1) =
      (Response StatusOK
         (ServiceJSON (renamed_service_1\<lparr>Service.ID := Context_Param (at_id ''service-1'') ''id''\<rparr>)), db')"
    and s: "services db' =
        map (\<lambda>row. if Service.ID row = Context_Param (at_id ''service-1'') ''id''
                    then row\<lparr>Name := Name renamed_service_1, Slug := Slug renamed_service_1,
                             Description := Description renamed_service_1,
                             UpdatedAt := (if changes renamed_service_1 row then now seed_db
                                           else UpdatedAt row)\<rparr>
                    else row)
          (services seed_db)"
    and v: "versions db' = versions seed_db"
    by blast
  have other: "now db' = now seed_db" "relevance db' = relevance seed_db"
    "found_rows db' = found_rows seed_db"
    using r by (auto simp: handlers_UpdateService_def database_UpdateService_def Let_def fault_def
        split: if_splits)
  have "db' = seed_db\<lparr>services :=
        [\<lparr>Service.ID = ''service-1'', Name = ''Renamed'', Slug = ''renamed'',
          Description = [], CreatedAt = ''2024-01-01T00:00:00Z'',
          UpdatedAt = ''2024-02-01T00:00:00Z'', VersionsCount = 2\<rparr>,
         seed_services ! 1, seed_services ! 2]\<rparr>"
    using s v other
    by (cases db') (simp add: seed_db_def seed_services_def at_id_def Context_Param_def
        changes_def renamed_service_1_def)
  with r f ex show ?thesis
    by (simp add: list_ex_iff renamed_service_1_def at_id_def Context_Param_def)
qed


lemma GetService_not_found_iff:
  assumes "fault fs 0 = None"
  shows "responds (handlers_GetService db fs c) StatusNotFound \<longleftrightarrow>
    (\<forall>row \<in> set (services db). Service.ID row \<noteq> Context_Param c ''id'')"
proof (cases "filter (\<lambda>s. Service.ID s = Context_Param c ''id'') (services db)")
  case Nil
  then have "\<forall>row \<in> set (services db). Service.ID row \<noteq> Context_Param c ''id''"
    by (simp add: filter_empty_conv)
  then show ?thesis
    using assms Nil by (simp add: handlers_GetService_def database_GetServiceByID_def)
next
  case (Cons row rows)
  then have "row \<in> set (filter (\<lambda>s. Service.ID s = Context_Param c ''id'') (services db))"
    by simp
  then have "\<exists>row \<in> set (services db). Service.ID row = Context_Param c ''id''"
    by auto
  then show ?thesis
    using assms Cons by (auto simp: handlers_GetService_def database_GetServiceByID_def)
qed

lemma DeleteService_not_found_iff:
  assumes "fault fs 0 = None" and "fault fs 1 = None"
  shows "responds (fst (handlers_DeleteService db fs c)) StatusNotFound \<longleftrightarrow>
    (\<forall>row \<in> set (services db). Service.ID row \<noteq> Context_Param c ''id'')"
  using assms
  by (auto simp: handlers_DeleteService_def database_DeleteService_def Let_def filter_empty_conv)

lemma DeleteService_then_GetService:
  assumes "fault fs 0 = None" and "fault fs 1 = None" and "fault gs 0 = None"
    and "\<exists>row \<in> set (services db). Service.ID row = Context_Param c ''id''"
  shows "\<exists>db'. handlers_DeleteService db fs c =
      (Response StatusOK (H_message ''Service deleted''), db')
    \<and> services db' = filter (\<lambda>row. Service.ID row \<noteq> Context_Param c ''id'') (services db)
    \<and> handlers_GetService db' gs c = Response StatusNotFound (H_error ''Service not found'')"
  using assms
  by (auto simp: handlers_DeleteService_def database_DeleteService_def Let_def filter_empty_conv
      handlers_GetService_def database_GetServiceByID_def)

lemma UpdateService_not_found:
  assumes "fault fs 0 = None" and "fault fs 1 = None"
    and "\<forall>row \<in> set (services db). Service.ID row \<noteq> Context_Param c ''id''"
  shows "fst (handlers_UpdateService db fs c (Inr service)) =
    Response StatusNotFound (H_error ''Service not found'')"
  using assms
  by (auto simp: handlers_UpdateService_def database_UpdateService_def Let_def filter_empty_conv)

lemma UpdateService_not_found_iff_found_rows:
  assumes "fault fs 0 = None" and "fault fs 1 = None" and "found_rows db"
  shows "responds (fst (handlers_UpdateService db fs c (Inr service))) StatusNotFound \<longleftrightarrow>
    (\<forall>row \<in> set (services db). Service.ID row \<noteq> Context_Param c ''id'')"
  using assms
  by (auto simp: handlers_UpdateService_def database_UpdateService_def Let_def filter_empty_conv)

text \<open>
  Claim C10. With the store accepting their calls, the fetch and the delete answer 404
  exactly when no row has the id, a delete of an existing id removes its rows and
  answers 200, a fetch after it answers 404, and an update of an id that no row has
  answers 404 (the lemmas above). But the update also answers 404 for an id that a row
  has, when the body holds the values the row has already: the handler reads the count
  of affected rows as the count of rows found, and on the connection that
  \<open>connection.go\<close> opens MySQL counts the rows it changed. (On a connection with
  \<open>clientFoundRows\<close> the update would answer 404 exactly when no row has the id.)
  Below, \<open>service-1\<close> of the seeded store is fetched, and then updated with its own name,
  slug and description.
\<close>

theorem UpdateService_unchanged_not_found:
  "handlers_GetService seed_db [] (at_id ''service-1'') =
     Response StatusOK (ServiceJSON (seed_services ! 0))
   \<and> handlers_UpdateService seed_db [] (at_id ''service-1'') (Inr unchanged_service_1) =
     (Response StatusNotFound (H_error ''Service not found''), seed_db)"
  by (simp add: handlers_GetService_def database_GetServiceByID_def handlers_UpdateService_def
      database_UpdateService_def changes_def unchanged_service_1_def at_id_def Context_Param_def
      fault_def seed_db_def seed_services_def Let_def)

end
